theory Spec2Isabelle
  imports Main
begin

section \<open>Values, errors and positions\<close>

text \<open>
  The library is TypeScript running on JavaScript values. Offsets, indices and
  lengths are JavaScript numbers that hold integers; they are modelled as \<open>int\<close>
  (the widget stores \<open>-1\<close> as the offset of a cursor that has no position yet).
  A JavaScript string is a \<open>string\<close>, one list element per code unit, so that
  \<open>text.length\<close> is \<open>int (length text)\<close>.

  A thrown exception is the \<open>Inl\<close> branch of a sum; \<open>Error\<close> is
  \<open>new Error(msg)\<close> thrown by the library itself, \<open>TypeError\<close> is what the
  runtime throws when a property of \<open>undefined\<close> or \<open>null\<close> is read.
  Messages are written without their quotation marks and without the value
  some of them end with.
\<close>

datatype error = Error string | TypeError string

text \<open>
  A field declared \<open>T | null\<close> that the constructor never assigns reads as
  \<open>undefined\<close>; the three cases are kept apart because the code compares with
  \<open>=== null\<close>.
\<close>

datatype 'a js_ref = Undefined | Null | Ref 'a

text \<open>
  Arguments that are inspected with \<open>typeof\<close> or passed on unchecked. The one
  function value that reaches the code modelled here is the arrow function
  \<open>() => this.removeCursor(id)\<close> that the cursor manager creates;
  \<open>JSFunction\<close> keeps it as the id it closes over.
\<close>

datatype js_value =
    JSUndefined
  | JSNull
  | JSBoolean bool
  | JSNumber int
  | JSString string
  | JSFunction js_value

fun typeof :: "js_value \<Rightarrow> string" where
  "typeof JSUndefined = ''undefined''"
| "typeof JSNull = ''object''"
| "typeof (JSBoolean b) = ''boolean''"
| "typeof (JSNumber n) = ''number''"
| "typeof (JSString s) = ''string''"
| "typeof (JSFunction f) = ''function''"

text \<open>What \<open>if (v)\<close> makes of a value.\<close>

fun truthy :: "js_value \<Rightarrow> bool" where
  "truthy JSUndefined = False"
| "truthy JSNull = False"
| "truthy (JSBoolean b) = b"
| "truthy (JSNumber n) = (n \<noteq> 0)"
| "truthy (JSString s) = (s \<noteq> [])"
| "truthy (JSFunction f) = True"

text \<open>\<open>IPosition\<close>: a line number and a column.\<close>

record position =
  lineNumber :: int
  column :: int

datatype preference = EXACT | ABOVE | BELOW

text \<open>\<open>editor.IContentWidgetPosition\<close>.\<close>

record content_widget_position =
  cwp_position :: position
  cwp_preference :: "preference list"

section \<open>The host editor\<close>

text \<open>
  The editor and its text model belong to the host (monaco-editor), not to this
  library. The library reads the model through \<open>getPositionAt\<close> and
  \<open>getOffsetAt\<close>, both functions of the current buffer content. They are
  parameters of the development: a \<open>host\<close> gives the two translations for
  every buffer. The editor is taken to have a model (\<open>getModel()\<close> is not
  \<open>null\<close>). The host also decides what text an edit really inserts: it
  rewrites the line ends of the text it is given to those of the buffer.
  \<open>normaliseText\<close> is that rewriting, a parameter as well.
\<close>

type_synonym buffer = string

record host =
  getPositionAt :: "buffer \<Rightarrow> int \<Rightarrow> position"
  getOffsetAt :: "buffer \<Rightarrow> position \<Rightarrow> int"
  normaliseText :: "buffer \<Rightarrow> string \<Rightarrow> string"

text \<open>
  A concrete translator in the manner of the host: lines and columns count from
  1, a line ends at a line feed, an offset outside the buffer is clamped into it
  and a position outside the text is clamped to the nearest valid one; in
  inserted text a carriage return, with the line feed that may follow it,
  becomes a line feed. It is the host of the worked examples below.
\<close>

definition line_feed :: char where
  "line_feed = CHR 0x0A"

definition carriage_return :: char where
  "carriage_return = CHR 0x0D"

fun line_ends :: "string \<Rightarrow> string" where
  "line_ends [] = []"
| "line_ends [x] = (if x = carriage_return then [line_feed] else [x])"
| "line_ends (x # y # ys) =
     (if x = carriage_return \<and> y = line_feed then line_feed # line_ends ys
      else if x = carriage_return then line_feed # line_ends (y # ys)
      else x # line_ends (y # ys))"

fun walk_position :: "buffer \<Rightarrow> nat \<Rightarrow> nat \<times> nat \<Rightarrow> nat \<times> nat" where
  "walk_position [] n (l, c) = (l, c)"
| "walk_position (x # xs) n (l, c) =
     (if n = 0 then (l, c)
      else if x = line_feed then walk_position xs (n - 1) (l + 1, 1)
      else walk_position xs (n - 1) (l, c + 1))"

fun walk_offset :: "buffer \<Rightarrow> int \<times> int \<Rightarrow> int \<times> int \<Rightarrow> nat" where
  "walk_offset [] (l, c) (tline, tcol) = 0"
| "walk_offset (x # xs) (l, c) (tline, tcol) =
     (if tline < l \<or> (l = tline \<and> (tcol \<le> c \<or> x = line_feed)) then 0
      else 1 + walk_offset xs (if x = line_feed then (l + 1, 1) else (l, c + 1)) (tline, tcol))"

definition line_host :: host where
  "line_host =
     \<lparr> getPositionAt = (\<lambda>buf off.
         (case walk_position buf (nat off) (1, 1) of
            (l, c) \<Rightarrow> \<lparr> lineNumber = int l, column = int c \<rparr>)),
       getOffsetAt = (\<lambda>buf pos.
         int (walk_offset buf (1, 1) (lineNumber pos, column pos))),
       normaliseText = (\<lambda>buf txt. line_ends txt) \<rparr>"

text \<open>
  The model translates offset \<open>n\<close> to a position and back without changing it.
  The host does so for every offset inside the buffer.
\<close>

definition translates_back :: "host \<Rightarrow> buffer \<Rightarrow> int \<Rightarrow> bool" where
  "translates_back h buf n = (getOffsetAt h buf (getPositionAt h buf n) = n)"

section \<open>Validation\<close>

text \<open>
  The helpers of \<open>Validation\<close>. Each message ends with the offending value
  in the source; the model keeps the fixed part of the message.
\<close>

definition assertString :: "js_value \<Rightarrow> string \<Rightarrow> error + unit" where
  "assertString val name =
     (if typeof val \<noteq> ''string'' then Inl (Error (name @ '' must be a string but was: ''))
      else Inr ())"

definition assertNumber :: "js_value \<Rightarrow> string \<Rightarrow> error + unit" where
  "assertNumber val name =
     (if typeof val \<noteq> ''number'' then Inl (Error (name @ '' must be a number but was: ''))
      else Inr ())"

definition assertDefined :: "'a js_ref \<Rightarrow> string \<Rightarrow> error + unit" where
  "assertDefined val name =
     (if val = Undefined \<or> val = Null then Inl (Error (name @ '' must be a defined but was: ''))
      else Inr ())"

text \<open>
  \<open>assertPosition\<close>: the value must be defined and its \<open>lineNumber\<close> and
  \<open>column\<close> must be numbers. A \<open>position\<close> holds two numbers by its type,
  so the second check always passes.
\<close>

definition assertPosition :: "position js_ref \<Rightarrow> string \<Rightarrow> error + unit" where
  "assertPosition val name = assertDefined val name"

section \<open>EditorContentManager: classifying changes\<close>

text \<open>
  \<open>editor.IModelContentChange\<close>: the offset and the length of the replaced
  range and the new text (field \<open>text\<close> in the source).
\<close>

record raw_change =
  rangeOffset :: int
  rangeLength :: int
  changeText :: string

text \<open>
  The three callbacks of \<open>IEditorContentManagerOptions\<close>. A callback is a
  closure over the state \<open>'s\<close> of whoever supplied it; it may also read the
  editor, so it receives the buffer as it is when the callback runs.
\<close>

record 's content_options =
  onInsert :: "buffer \<Rightarrow> int \<Rightarrow> string \<Rightarrow> 's \<Rightarrow> 's"
  onReplace :: "buffer \<Rightarrow> int \<Rightarrow> int \<Rightarrow> string \<Rightarrow> 's \<Rightarrow> 's"
  onDelete :: "buffer \<Rightarrow> int \<Rightarrow> int \<Rightarrow> 's \<Rightarrow> 's"

text \<open>\<open>_DEFAULTS\<close>: callbacks that do nothing.\<close>

definition default_options :: "'s content_options" where
  "default_options =
     \<lparr> onInsert = (\<lambda>buf index txt s. s),
       onReplace = (\<lambda>buf index len txt s. s),
       onDelete = (\<lambda>buf index len s. s) \<rparr>"

text \<open>
  The mutable part of an \<open>EditorContentManager\<close>: the \<open>_suppress\<close> flag
  (never initialised, so it reads as false at first) and whether the
  subscription behind \<open>_disposer\<close> is still live.
\<close>

record content_manager =
  cm_suppress :: bool
  cm_listening :: bool

definition new_content_manager :: content_manager where
  "new_content_manager = \<lparr> cm_suppress = False, cm_listening = True \<rparr>"

definition contentManager_dispose :: "content_manager \<Rightarrow> content_manager" where
  "contentManager_dispose cm = cm\<lparr> cm_listening := False \<rparr>"

text \<open>\<open>_processChange\<close>.\<close>

definition contentManager_processChange ::
  "'s content_options \<Rightarrow> buffer \<Rightarrow> raw_change js_ref \<Rightarrow> 's \<Rightarrow> error + 's" where
  "contentManager_processChange opts buf change s =
     (case assertDefined change ''change'' of
        Inl e \<Rightarrow> Inl e
      | Inr u \<Rightarrow>
         (case change of
            Ref c \<Rightarrow>
              (if length (changeText c) > 0 \<and> rangeLength c = 0 then
                 Inr (onInsert opts buf (rangeOffset c) (changeText c) s)
               else if length (changeText c) > 0 \<and> rangeLength c > 0 then
                 Inr (onReplace opts buf (rangeOffset c) (rangeLength c) (changeText c) s)
               else if length (changeText c) = 0 \<and> rangeLength c > 0 then
                 Inr (onDelete opts buf (rangeOffset c) (rangeLength c) s)
               else Inl (Error ''Unexpected change: ''))
          | Undefined \<Rightarrow> Inl (TypeError ''Cannot destructure undefined'')
          | Null \<Rightarrow> Inl (TypeError ''Cannot destructure null'')))"

text \<open>\<open>e.changes.forEach(change => this._processChange(change))\<close>.\<close>

fun forEach_processChange ::
  "'s content_options \<Rightarrow> buffer \<Rightarrow> raw_change list \<Rightarrow> 's \<Rightarrow> error + 's" where
  "forEach_processChange opts buf [] s = Inr s"
| "forEach_processChange opts buf (c # cs) s =
     (case contentManager_processChange opts buf (Ref c) s of
        Inl e \<Rightarrow> Inl e
      | Inr s' \<Rightarrow> forEach_processChange opts buf cs s')"

text \<open>\<open>_onContentChanged\<close>.\<close>

definition contentManager_onContentChanged ::
  "content_manager \<Rightarrow> 's content_options \<Rightarrow> buffer \<Rightarrow> raw_change list \<Rightarrow> 's \<Rightarrow> error + 's" where
  "contentManager_onContentChanged cm opts buf changes s =
     (if \<not> cm_suppress cm then forEach_processChange opts buf changes s else Inr s)"

section \<open>RemoteCursorWidget\<close>

text \<open>
  The fields of \<open>RemoteCursorWidget\<close> that carry state. The DOM node is kept
  as its class name, colour and \<open>style.display\<close> value; the tooltip node as
  the flag whether it was created, with its class name and label;
  \<open>cw_hover\<close> says whether the hover listeners were attached and
  \<open>cw_inEditor\<close> whether the widget is registered with the editor
  (\<open>addContentWidget\<close> / \<open>removeContentWidget\<close>). \<open>cw_widgetId\<close> is the
  number behind the id \<open>monaco-remote-cursor-N\<close>. \<open>_position\<close> is declared
  but not assigned by the constructor. Tooltip timers and scroll handling only
  restyle the tooltip node and are left out.
\<close>

record cursor_widget =
  cw_widgetId :: nat
  cw_className :: js_value
  cw_color :: js_value
  cw_display :: string
  cw_tooltip :: bool
  cw_tooltipClassName :: js_value
  cw_label :: js_value
  cw_tooltipDuration :: js_value
  cw_hover :: bool
  cw_inEditor :: bool
  cw_contentManager :: content_manager
  cw_position :: "content_widget_position js_ref"
  cw_offset :: int
  cw_disposed :: bool
  cw_onDisposed :: js_value

text \<open>
  The constructor, with its parameters in the order of the source after the
  editor: \<open>widgetId\<close>, \<open>className\<close>, \<open>color\<close>, \<open>label\<close>,
  \<open>tooltipEnabled\<close>, \<open>tooltipDuration\<close>, \<open>showTooltipOnHover\<close>,
  \<open>tooltipClassName\<close>, \<open>onDisposed\<close>. None of them is checked; the
  tooltip node is created when \<open>tooltipEnabled\<close> is truthy.
\<close>

definition new_RemoteCursorWidget ::
  "nat \<Rightarrow> js_value \<Rightarrow> js_value \<Rightarrow> js_value \<Rightarrow> js_value \<Rightarrow> js_value \<Rightarrow> js_value
     \<Rightarrow> js_value \<Rightarrow> js_value \<Rightarrow> cursor_widget" where
  "new_RemoteCursorWidget widgetId className color label tooltipEnabled tooltipDuration
       showTooltipOnHover tooltipClassName onDisposed =
     \<lparr> cw_widgetId = widgetId,
       cw_className = className,
       cw_color = color,
       cw_display = [],
       cw_tooltip = truthy tooltipEnabled,
       cw_tooltipClassName = tooltipClassName,
       cw_label = label,
       cw_tooltipDuration = tooltipDuration,
       cw_hover = (truthy tooltipEnabled \<and> truthy showTooltipOnHover),
       cw_inEditor = True,
       cw_contentManager = new_content_manager,
       cw_position = Undefined,
       cw_offset = - 1,
       cw_disposed = False,
       cw_onDisposed = onDisposed \<rparr>"

definition widget_hide :: "cursor_widget \<Rightarrow> cursor_widget" where
  "widget_hide w = w\<lparr> cw_display := ''none'' \<rparr>"

definition widget_show :: "cursor_widget \<Rightarrow> cursor_widget" where
  "widget_show w = w\<lparr> cw_display := ''inherit'' \<rparr>"

text \<open>
  \<open>_updatePosition\<close>: store a copy of the position, read the offset back from
  the model, lay the widget out again (rendering only).
\<close>

definition widget_updatePosition :: "host \<Rightarrow> buffer \<Rightarrow> position \<Rightarrow> cursor_widget \<Rightarrow> cursor_widget" where
  "widget_updatePosition h buf pos w =
     w\<lparr> cw_position := Ref \<lparr> cwp_position = pos, cwp_preference = [EXACT] \<rparr>,
        cw_offset := getOffsetAt h buf pos \<rparr>"

definition widget_setPosition ::
  "host \<Rightarrow> buffer \<Rightarrow> position js_ref \<Rightarrow> cursor_widget \<Rightarrow> error + cursor_widget" where
  "widget_setPosition h buf pos w =
     (case assertPosition pos ''position'' of
        Inl e \<Rightarrow> Inl e
      | Inr u \<Rightarrow>
         (case pos of
            Ref p \<Rightarrow> Inr (widget_updatePosition h buf p w)
          | Undefined \<Rightarrow> Inl (TypeError ''position is undefined'')
          | Null \<Rightarrow> Inl (TypeError ''position is null'')))"

definition widget_setOffset ::
  "host \<Rightarrow> buffer \<Rightarrow> js_value \<Rightarrow> cursor_widget \<Rightarrow> error + cursor_widget" where
  "widget_setOffset h buf offset w =
     (case assertNumber offset ''offset'' of
        Inl e \<Rightarrow> Inl e
      | Inr u \<Rightarrow>
         (case offset of
            JSNumber n \<Rightarrow> widget_setPosition h buf (Ref (getPositionAt h buf n)) w
          | _ \<Rightarrow> Inl (TypeError ''offset is not a number'')))"

definition widget_isDisposed :: "cursor_widget \<Rightarrow> bool" where
  "widget_isDisposed w = cw_disposed w"

definition widget_getPosition :: "cursor_widget \<Rightarrow> content_widget_position js_ref" where
  "widget_getPosition w = cw_position w"

text \<open>
  The three handlers the widget hands to its content manager. \<open>buf\<close> is the
  buffer at the time the handler runs, that is, after the change it reports.
\<close>

definition widget_onInsert :: "host \<Rightarrow> buffer \<Rightarrow> int \<Rightarrow> string \<Rightarrow> cursor_widget \<Rightarrow> cursor_widget" where
  "widget_onInsert h buf index txt w =
     (if cw_position w = Null then w
      else
        (let offset = cw_offset w in
         if index \<le> offset then
           (let newOffset = offset + int (length txt);
                pos = getPositionAt h buf newOffset
            in widget_updatePosition h buf pos w)
         else w))"

definition widget_onReplace :: "host \<Rightarrow> buffer \<Rightarrow> int \<Rightarrow> int \<Rightarrow> string \<Rightarrow> cursor_widget \<Rightarrow> cursor_widget" where
  "widget_onReplace h buf index len txt w =
     (if cw_position w = Null then w
      else
        (let offset = cw_offset w in
         if index \<le> offset then
           (let newOffset = (offset - min (offset - index) len) + int (length txt);
                pos = getPositionAt h buf newOffset
            in widget_updatePosition h buf pos w)
         else w))"

definition widget_onDelete :: "host \<Rightarrow> buffer \<Rightarrow> int \<Rightarrow> int \<Rightarrow> cursor_widget \<Rightarrow> cursor_widget" where
  "widget_onDelete h buf index len w =
     (if cw_position w = Null then w
      else
        (let offset = cw_offset w in
         if index \<le> offset then
           (let newOffset = offset - min (offset - index) len;
                pos = getPositionAt h buf newOffset
            in widget_updatePosition h buf pos w)
         else w))"

text \<open>
  The options the constructor passes to \<open>new EditorContentManager\<close>: the
  widget's own three handlers.
\<close>

definition widget_options :: "host \<Rightarrow> cursor_widget content_options" where
  "widget_options h =
     \<lparr> onInsert = widget_onInsert h,
       onReplace = widget_onReplace h,
       onDelete = widget_onDelete h \<rparr>"

text \<open>
  The part of \<open>dispose\<close> that touches the widget itself: leave the editor,
  release the content manager's subscription, set the flag. The call of
  \<open>_onDisposed\<close> that follows comes after the flag is set; it acts on the
  manager and is modelled there.
\<close>

definition widget_release :: "cursor_widget \<Rightarrow> cursor_widget" where
  "widget_release w =
     w\<lparr> cw_inEditor := False,
        cw_contentManager := contentManager_dispose (cw_contentManager w),
        cw_disposed := True \<rparr>"

section \<open>RemoteSelection\<close>

text \<open>
  A decoration as \<open>_render\<close> hands it to \<open>deltaDecorations\<close>: the four
  numbers of the range and the hover message. The editor answers with the ids
  of the decorations it now shows; the model keeps the decorations themselves.
  (The editor keeps a decoration it shows attached to its text while the
  buffer changes; that is the editor's doing and leaves the positions the
  selection has stored as they are.)
\<close>

record decoration =
  d_startLineNumber :: int
  d_startColumn :: int
  d_endLineNumber :: int
  d_endColumn :: int
  d_hoverMessage :: js_value

text \<open>
  The state of a \<open>RemoteSelection\<close>. \<open>rs_styleAttached\<close> says whether its
  style element is in the document; \<open>rs_classId\<close> is the number in its class
  name; \<open>rs_onDisposed\<close> is the callback \<open>() => this.removeSelection(id)\<close>,
  kept as the id it closes over. The constructor assigns neither the two
  positions nor \<open>_disposed\<close>, which therefore reads as false.
\<close>

record remote_selection =
  rs_id :: js_value
  rs_classId :: nat
  rs_color :: js_value
  rs_label :: js_value
  rs_styleAttached :: bool
  rs_startPosition :: "position js_ref"
  rs_endPosition :: "position js_ref"
  rs_decorations :: "decoration list"
  rs_disposed :: bool
  rs_onDisposed :: js_value

text \<open>
  The constructor. \<open>_addDynamicStyleElement\<close> asserts that the class name and
  the colour are strings; the class name always is.
\<close>

definition new_RemoteSelection ::
  "js_value \<Rightarrow> nat \<Rightarrow> js_value \<Rightarrow> js_value \<Rightarrow> js_value \<Rightarrow> error + remote_selection" where
  "new_RemoteSelection ident classId color label onDisposed =
     (case assertString color ''color'' of
        Inl e \<Rightarrow> Inl e
      | Inr u \<Rightarrow>
          Inr \<lparr> rs_id = ident,
                rs_classId = classId,
                rs_color = color,
                rs_label = label,
                rs_styleAttached = True,
                rs_startPosition = Undefined,
                rs_endPosition = Undefined,
                rs_decorations = [],
                rs_disposed = False,
                rs_onDisposed = onDisposed \<rparr>)"

text \<open>\<open>_swapIfNeeded\<close>.\<close>

definition swapIfNeeded :: "position \<Rightarrow> position \<Rightarrow> position \<times> position" where
  "swapIfNeeded startPos endPos =
     (if lineNumber startPos < lineNumber endPos
         \<or> (lineNumber startPos = lineNumber endPos \<and> column startPos \<le> column endPos)
      then (startPos, endPos)
      else (endPos, startPos))"

text \<open>\<open>_render\<close> reads both stored positions and replaces the decorations.\<close>

definition selection_render :: "remote_selection \<Rightarrow> error + remote_selection" where
  "selection_render sel =
     (case rs_startPosition sel of
        Ref a \<Rightarrow>
          (case rs_endPosition sel of
             Ref b \<Rightarrow>
               Inr (sel\<lparr> rs_decorations :=
                     [\<lparr> d_startLineNumber = lineNumber a,
                        d_startColumn = column a,
                        d_endLineNumber = lineNumber b,
                        d_endColumn = column b,
                        d_hoverMessage =
                          (if rs_label sel \<noteq> JSUndefined \<and> rs_label sel \<noteq> JSNull
                           then rs_label sel else JSNull) \<rparr>] \<rparr>)
           | _ \<Rightarrow> Inl (TypeError ''Cannot read properties of undefined (reading lineNumber)''))
      | _ \<Rightarrow> Inl (TypeError ''Cannot read properties of undefined (reading lineNumber)''))"

definition selection_setPositions :: "position \<Rightarrow> position \<Rightarrow> remote_selection \<Rightarrow> error + remote_selection" where
  "selection_setPositions startPos endPos sel =
     (let ordered = swapIfNeeded startPos endPos in
      selection_render
        (sel\<lparr> rs_startPosition := Ref (fst ordered), rs_endPosition := Ref (snd ordered) \<rparr>))"

definition selection_setOffsets ::
  "host \<Rightarrow> buffer \<Rightarrow> int \<Rightarrow> int \<Rightarrow> remote_selection \<Rightarrow> error + remote_selection" where
  "selection_setOffsets h buf startOff endOff sel =
     (let startPosition = getPositionAt h buf startOff;
          endPosition = getPositionAt h buf endOff
      in selection_setPositions startPosition endPosition sel)"

definition selection_show :: "remote_selection \<Rightarrow> error + remote_selection" where
  "selection_show sel = selection_render sel"

definition selection_hide :: "remote_selection \<Rightarrow> remote_selection" where
  "selection_hide sel = sel\<lparr> rs_decorations := [] \<rparr>"

definition selection_isDisposed :: "remote_selection \<Rightarrow> bool" where
  "selection_isDisposed sel = rs_disposed sel"

text \<open>
  The part of \<open>dispose\<close> that touches the selection itself: remove the style
  element, hide, set the flag. The call of \<open>_onDisposed\<close> that follows acts on
  the manager and is modelled there.
\<close>

definition selection_release :: "remote_selection \<Rightarrow> remote_selection" where
  "selection_release sel =
     (selection_hide (sel\<lparr> rs_styleAttached := False \<rparr>))\<lparr> rs_disposed := True \<rparr>"

section \<open>The editor, its subscribers and programmatic edits\<close>

text \<open>
  What listens to \<open>onDidChangeModelContent\<close> of one editor: content managers
  created by the integrator, and the private content manager of every cursor
  widget. The callbacks of an integrator's manager are foreign code; the model
  records each call they receive. A widget's manager carries the widget's
  handlers, so the subscriber is the widget itself. A \<open>RemoteSelection\<close>
  creates no content manager and subscribes to nothing: the selections shown
  in the editor are kept beside the subscribers.
\<close>

datatype callback_call =
    OnInsert int string
  | OnReplace int int string
  | OnDelete int int

datatype subscriber =
    Bridge content_manager "callback_call list"
  | Marker cursor_widget

definition recording_options :: "callback_call list content_options" where
  "recording_options =
     \<lparr> onInsert = (\<lambda>buf index txt calls. calls @ [OnInsert index txt]),
       onReplace = (\<lambda>buf index len txt calls. calls @ [OnReplace index len txt]),
       onDelete = (\<lambda>buf index len calls. calls @ [OnDelete index len]) \<rparr>"

record editor =
  ed_buffer :: buffer
  ed_subscribers :: "subscriber list"
  ed_selections :: "remote_selection list"

text \<open>The editor delivers one event to one subscriber whose subscription is live.\<close>

fun notify :: "host \<Rightarrow> buffer \<Rightarrow> raw_change list \<Rightarrow> subscriber \<Rightarrow> error + subscriber" where
  "notify h buf changes (Bridge cm calls) =
     (if cm_listening cm then
        (case contentManager_onContentChanged cm recording_options buf changes calls of
           Inl e \<Rightarrow> Inl e
         | Inr calls' \<Rightarrow> Inr (Bridge cm calls'))
      else Inr (Bridge cm calls))"
| "notify h buf changes (Marker w) =
     (if cm_listening (cw_contentManager w) then
        (case contentManager_onContentChanged (cw_contentManager w) (widget_options h) buf changes w of
           Inl e \<Rightarrow> Inl e
         | Inr w' \<Rightarrow> Inr (Marker w'))
      else Inr (Marker w))"

text \<open>
  The editor delivers the event to every subscriber in subscription order; an
  exception thrown by a listener ends the delivery.
\<close>

fun fire :: "host \<Rightarrow> buffer \<Rightarrow> raw_change list \<Rightarrow> subscriber list \<Rightarrow> error + subscriber list" where
  "fire h buf changes [] = Inr []"
| "fire h buf changes (s # ss) =
     (case notify h buf changes s of
        Inl e \<Rightarrow> Inl e
      | Inr s' \<Rightarrow>
         (case fire h buf changes ss of
            Inl e \<Rightarrow> Inl e
          | Inr ss' \<Rightarrow> Inr (s' # ss')))"

text \<open>
  A change as the host reports it says what happened to the buffer: the text
  it carries is the text that was put in. The host applies one change to the
  buffer and then raises one content-change event that carries it: the
  subscribers see the buffer after the change. Nothing in an event reaches the
  selections.
\<close>

definition splice :: "buffer \<Rightarrow> raw_change \<Rightarrow> buffer" where
  "splice buf c =
     take (nat (rangeOffset c)) buf @ changeText c @ drop (nat (rangeOffset c + rangeLength c)) buf"

definition apply_change :: "host \<Rightarrow> raw_change \<Rightarrow> editor \<Rightarrow> error + editor" where
  "apply_change h c ed =
     (let buf' = splice (ed_buffer ed) c in
      case fire h buf' [c] (ed_subscribers ed) of
        Inl e \<Rightarrow> Inl e
      | Inr subs \<Rightarrow> Inr (ed\<lparr> ed_buffer := buf', ed_subscribers := subs \<rparr>))"

text \<open>
  One edit that the host reports as several changes (typing with several
  cursors, replacing all matches). The offsets of the changes refer to the
  buffer before the edit and the host lists them from the end of the buffer
  towards its start, so applying them in that order gives the buffer after
  the edit. One event carries them all, raised when the buffer has its final
  content.
\<close>

definition apply_event :: "host \<Rightarrow> raw_change list \<Rightarrow> editor \<Rightarrow> error + editor" where
  "apply_event h changes ed =
     (let buf' = foldl splice (ed_buffer ed) changes in
      case fire h buf' changes (ed_subscribers ed) of
        Inl e \<Rightarrow> Inl e
      | Inr subs \<Rightarrow> Inr (ed\<lparr> ed_buffer := buf', ed_subscribers := subs \<rparr>))"


text \<open>
  \<open>executeEdits\<close> with one edit operation whose range runs from \<open>startPos\<close>
  to \<open>endPos\<close>. The host orders the two ends of the range, turns them into
  offsets, rewrites the line ends of the text and applies the change;
  \<open>edit_change\<close> is the change it arrives at. An edit that neither removes
  nor inserts anything raises no event.
\<close>

definition edit_change :: "host \<Rightarrow> buffer \<Rightarrow> position \<Rightarrow> position \<Rightarrow> string \<Rightarrow> raw_change" where
  "edit_change h buf startPos endPos txt =
     (let a = getOffsetAt h buf startPos;
          b = getOffsetAt h buf endPos
      in \<lparr> rangeOffset = min a b, rangeLength = max a b - min a b,
           changeText = normaliseText h buf txt \<rparr>)"

definition executeEdits :: "host \<Rightarrow> position \<Rightarrow> position \<Rightarrow> string \<Rightarrow> editor \<Rightarrow> error + editor" where
  "executeEdits h startPos endPos txt ed =
     (let c = edit_change h (ed_buffer ed) startPos endPos txt
      in if rangeLength c = 0 \<and> changeText c = [] then Inr ed else apply_change h c ed)"

text \<open>
  A content manager is named by its place \<open>k\<close> in the subscriber list.
  \<open>set_suppress\<close> writes its \<open>_suppress\<close> flag.
\<close>

fun with_suppress :: "bool \<Rightarrow> subscriber \<Rightarrow> subscriber" where
  "with_suppress b (Bridge cm calls) = Bridge (cm\<lparr> cm_suppress := b \<rparr>) calls"
| "with_suppress b (Marker w) =
     Marker (w\<lparr> cw_contentManager := (cw_contentManager w)\<lparr> cm_suppress := b \<rparr> \<rparr>)"

definition set_suppress :: "nat \<Rightarrow> bool \<Rightarrow> editor \<Rightarrow> editor" where
  "set_suppress k b ed =
     (if k < length (ed_subscribers ed) then
        ed\<lparr> ed_subscribers := (ed_subscribers ed)[k := with_suppress b (ed_subscribers ed ! k)] \<rparr>
      else ed)"

text \<open>\<open>EditorContentManager.insert\<close>, \<open>replace\<close> and \<open>delete\<close>.\<close>

definition contentManager_insert :: "host \<Rightarrow> nat \<Rightarrow> int \<Rightarrow> string \<Rightarrow> editor \<Rightarrow> error + editor" where
  "contentManager_insert h k index txt ed =
     (let ed1 = set_suppress k True ed;
          pos = getPositionAt h (ed_buffer ed1) index
      in case executeEdits h pos pos txt ed1 of
           Inl e \<Rightarrow> Inl e
         | Inr ed2 \<Rightarrow> Inr (set_suppress k False ed2))"



section \<open>Objects and references\<close>

text \<open>
  A manager's map and the handles it gives out refer to the same widget or
  selection object. The objects a manager has created are kept in a list; a
  reference is a place in it. Every reference the operations produce denotes an
  object; \<open>dangling\<close> is the outcome of following any other number.
\<close>

definition dangling :: error where
  "dangling = Error ''reference to no object''"

definition deref :: "'a list \<Rightarrow> nat \<Rightarrow> 'a option" where
  "deref heap a = (if a < length heap then Some (heap ! a) else None)"

section \<open>RemoteSelectionManager\<close>

record selection_state =
  rsm_nextClassId :: nat
  rsm_remoteSelections :: "js_value \<rightharpoonup> nat"
  rsm_heap :: "remote_selection list"

definition new_RemoteSelectionManager :: selection_state where
  "new_RemoteSelectionManager =
     \<lparr> rsm_nextClassId = 0, rsm_remoteSelections = Map.empty, rsm_heap = [] \<rparr>"

text \<open>\<open>addSelection\<close> returns the new selection object.\<close>

definition addSelection ::
  "js_value \<Rightarrow> js_value \<Rightarrow> js_value \<Rightarrow> selection_state \<Rightarrow> error + selection_state \<times> nat" where
  "addSelection ident color label s =
     (case new_RemoteSelection ident (rsm_nextClassId s) color label ident of
        Inl e \<Rightarrow> Inl e
      | Inr selection \<Rightarrow>
          Inr (s\<lparr> rsm_nextClassId := rsm_nextClassId s + 1,
                  rsm_heap := rsm_heap s @ [selection],
                  rsm_remoteSelections := (rsm_remoteSelections s)(ident \<mapsto> length (rsm_heap s)) \<rparr>,
               length (rsm_heap s)))"

text \<open>\<open>_getSelection\<close>.\<close>

definition getSelection :: "js_value \<Rightarrow> selection_state \<Rightarrow> error + nat" where
  "getSelection ident s =
     (case rsm_remoteSelections s ident of
        None \<Rightarrow> Inl (Error ''No such selection: '')
      | Some a \<Rightarrow> Inr a)"

definition undisposed_selections :: "remote_selection list \<Rightarrow> nat" where
  "undisposed_selections heap = length (filter (\<lambda>sel. \<not> rs_disposed sel) heap)"

lemma undisposed_selections_release:
  "a < length heap \<Longrightarrow> \<not> rs_disposed (heap ! a) \<Longrightarrow>
   undisposed_selections (heap[a := selection_release (heap ! a)]) < undisposed_selections heap"
proof (induction heap arbitrary: a)
  case Nil
  then show ?case by simp
next
  case (Cons x xs)
  show ?case
  proof (cases a)
    case 0
    with Cons.prems show ?thesis
      by (simp add: undisposed_selections_def selection_release_def selection_hide_def)
  next
    case (Suc b)
    with Cons.prems Cons.IH [of b] show ?thesis
      by (simp add: undisposed_selections_def)
  qed
qed

text \<open>
  \<open>RemoteSelection.dispose\<close> and \<open>RemoteSelectionManager.removeSelection\<close>
  call each other: \<open>dispose\<close> ends by calling \<open>_onDisposed\<close>, which is
  \<open>removeSelection\<close> of the id the selection was added under, and
  \<open>removeSelection\<close> disposes the selection it finds under that id. Every
  round sets the flag of one more selection.
\<close>

function selection_dispose :: "nat \<Rightarrow> selection_state \<Rightarrow> error + selection_state"
  and removeSelection :: "js_value \<Rightarrow> selection_state \<Rightarrow> error + selection_state" where
  "selection_dispose a s =
     (case deref (rsm_heap s) a of
        None \<Rightarrow> Inl dangling
      | Some sel \<Rightarrow>
          (if \<not> rs_disposed sel then
             removeSelection (rs_onDisposed sel)
               (s\<lparr> rsm_heap := (rsm_heap s)[a := selection_release sel] \<rparr>)
           else Inr s))"
| "removeSelection ident s =
     (case getSelection ident s of
        Inl e \<Rightarrow> Inl e
      | Inr a \<Rightarrow>
          (case deref (rsm_heap s) a of
             None \<Rightarrow> Inl dangling
           | Some remoteSelection \<Rightarrow>
               (if \<not> selection_isDisposed remoteSelection then selection_dispose a s
                else Inr s)))"
  by pat_completeness auto
termination
  apply (relation "measure (\<lambda>x. case x of
            Inl (a, s) \<Rightarrow> 2 * undisposed_selections (rsm_heap s)
          | Inr (ident, s) \<Rightarrow> 2 * undisposed_selections (rsm_heap s) + 1)")
    apply simp
   apply (auto simp: deref_def split: if_splits dest: undisposed_selections_release)
  done

text \<open>An operation of a selection, carried out on the object behind a reference.\<close>

definition on_selection ::
  "nat \<Rightarrow> (remote_selection \<Rightarrow> error + remote_selection) \<Rightarrow> selection_state \<Rightarrow> error + selection_state" where
  "on_selection a f s =
     (case deref (rsm_heap s) a of
        None \<Rightarrow> Inl dangling
      | Some sel \<Rightarrow>
          (case f sel of
             Inl e \<Rightarrow> Inl e
           | Inr sel' \<Rightarrow> Inr (s\<lparr> rsm_heap := (rsm_heap s)[a := sel'] \<rparr>)))"

definition setSelectionOffsets ::
  "host \<Rightarrow> buffer \<Rightarrow> js_value \<Rightarrow> int \<Rightarrow> int \<Rightarrow> selection_state \<Rightarrow> error + selection_state" where
  "setSelectionOffsets h buf ident startOff endOff s =
     (case getSelection ident s of
        Inl e \<Rightarrow> Inl e
      | Inr a \<Rightarrow> on_selection a (selection_setOffsets h buf startOff endOff) s)"

definition setSelectionPositions ::
  "js_value \<Rightarrow> position \<Rightarrow> position \<Rightarrow> selection_state \<Rightarrow> error + selection_state" where
  "setSelectionPositions ident startPos endPos s =
     (case getSelection ident s of
        Inl e \<Rightarrow> Inl e
      | Inr a \<Rightarrow> on_selection a (selection_setPositions startPos endPos) s)"

definition showSelection :: "js_value \<Rightarrow> selection_state \<Rightarrow> error + selection_state" where
  "showSelection ident s =
     (case getSelection ident s of
        Inl e \<Rightarrow> Inl e
      | Inr a \<Rightarrow> on_selection a selection_show s)"

definition hideSelection :: "js_value \<Rightarrow> selection_state \<Rightarrow> error + selection_state" where
  "hideSelection ident s =
     (case getSelection ident s of
        Inl e \<Rightarrow> Inl e
      | Inr a \<Rightarrow> on_selection a (\<lambda>sel. Inr (selection_hide sel)) s)"

section \<open>RemoteCursorManager and RemoteCursor\<close>

text \<open>
  \<open>IRemoteCursorManagerOptions\<close>: whether an editor is given, and the two
  optional settings (\<open>None\<close> when the key is absent).
\<close>

record manager_options =
  mo_editor :: bool
  mo_tooltips :: "bool option"
  mo_tooltipDuration :: "int option"

record cursor_state =
  rcm_tooltips :: bool
  rcm_tooltipDuration :: int
  rcm_nextWidgetId :: nat
  rcm_cursorWidgets :: "js_value \<rightharpoonup> nat"
  rcm_heap :: "cursor_widget list"

text \<open>
  The constructor: \<open>options\<close> must be an object (\<open>typeof null\<close> is
  \<open>object\<close> too, and spreading \<open>null\<close> adds nothing to the defaults), the
  defaults \<open>{tooltips: true, tooltipDuration: 1}\<close> are overridden by the keys
  given, and an editor is required.
\<close>

definition new_RemoteCursorManager :: "manager_options js_ref \<Rightarrow> error + cursor_state" where
  "new_RemoteCursorManager options =
     (case options of
        Undefined \<Rightarrow> Inl (Error ''options is a required parameter and must be an object.'')
      | Null \<Rightarrow> Inl (Error ''options.editor must be defined but was: '')
      | Ref opts \<Rightarrow>
          (if \<not> mo_editor opts then Inl (Error ''options.editor must be defined but was: '')
           else
             Inr \<lparr> rcm_tooltips = (case mo_tooltips opts of None \<Rightarrow> True | Some b \<Rightarrow> b),
                   rcm_tooltipDuration = (case mo_tooltipDuration opts of None \<Rightarrow> 1 | Some d \<Rightarrow> d),
                   rcm_nextWidgetId = 0,
                   rcm_cursorWidgets = Map.empty,
                   rcm_heap = [] \<rparr>))"

text \<open>\<open>RemoteCursor\<close>: a handle that holds its widget as \<open>_delegate\<close>.\<close>

datatype remote_cursor = RemoteCursor nat

text \<open>
  \<open>addCursor\<close>. The guard on the label is written
  \<open>this._options.tooltips && typeof "label" !== "string"\<close>: \<open>typeof\<close> is
  applied to the string literal. The call of the widget's constructor lists
  seven arguments after \<open>new RemoteCursorWidget(\<close>: the editor, the widget
  id, the colour, the label, the tooltip setting, the duration in milliseconds
  and the callback \<open>() => this.removeCursor(id)\<close>. The constructor has ten
  parameters and JavaScript binds arguments by position: the colour becomes the
  class name, the label the colour, the tooltip setting the label, the duration
  \<open>tooltipEnabled\<close>, the callback \<open>tooltipDuration\<close>, and
  \<open>showTooltipOnHover\<close>, \<open>tooltipClassName\<close> and \<open>onDisposed\<close> are
  left undefined.
\<close>

definition addCursor ::
  "js_value \<Rightarrow> js_value \<Rightarrow> js_value \<Rightarrow> cursor_state \<Rightarrow> error + cursor_state \<times> remote_cursor" where
  "addCursor ident color label s =
     (case assertString ident ''id'' of
        Inl e \<Rightarrow> Inl e
      | Inr u \<Rightarrow>
     (case assertString color ''color'' of
        Inl e \<Rightarrow> Inl e
      | Inr u \<Rightarrow>
          (if rcm_tooltips s \<and> typeof (JSString ''label'') \<noteq> ''string'' then
             Inl (Error ''label is required when tooltips are enabled.'')
           else
             (let widgetId = rcm_nextWidgetId s;
                  tooltipDurationMs = rcm_tooltipDuration s * 1000;
                  cursorWidget =
                    new_RemoteCursorWidget widgetId color label (JSBoolean (rcm_tooltips s))
                      (JSNumber tooltipDurationMs) (JSFunction ident)
                      JSUndefined JSUndefined JSUndefined
              in Inr (s\<lparr> rcm_nextWidgetId := rcm_nextWidgetId s + 1,
                         rcm_heap := rcm_heap s @ [cursorWidget],
                         rcm_cursorWidgets := (rcm_cursorWidgets s)(ident \<mapsto> length (rcm_heap s)) \<rparr>,
                      RemoteCursor (length (rcm_heap s)))))))"

text \<open>\<open>_getCursor\<close>.\<close>

definition getCursor :: "js_value \<Rightarrow> cursor_state \<Rightarrow> error + nat" where
  "getCursor ident s =
     (case rcm_cursorWidgets s ident of
        None \<Rightarrow> Inl (Error ''No such cursor: '')
      | Some a \<Rightarrow> Inr a)"

definition undisposed_widgets :: "cursor_widget list \<Rightarrow> nat" where
  "undisposed_widgets heap = length (filter (\<lambda>w. \<not> cw_disposed w) heap)"

lemma undisposed_widgets_release:
  "a < length heap \<Longrightarrow> \<not> cw_disposed (heap ! a) \<Longrightarrow>
   undisposed_widgets (heap[a := widget_release (heap ! a)]) < undisposed_widgets heap"
proof (induction heap arbitrary: a)
  case Nil
  then show ?case by simp
next
  case (Cons x xs)
  show ?case
  proof (cases a)
    case 0
    with Cons.prems show ?thesis
      by (simp add: undisposed_widgets_def widget_release_def)
  next
    case (Suc b)
    with Cons.prems Cons.IH [of b] show ?thesis
      by (simp add: undisposed_widgets_def)
  qed
qed

text \<open>
  \<open>RemoteCursorWidget.dispose\<close> and \<open>RemoteCursorManager.removeCursor\<close>.
  \<open>dispose\<close> ends with the call \<open>this._onDisposed()\<close>, made after the flag
  is set: when the field holds the manager's callback this is
  \<open>removeCursor\<close> of the id it closes over, and when it holds no function the
  call throws. \<open>removeCursor\<close> disposes the widget it finds under the id and
  ends with \<open>this._cursorWidgets.delete(id)\<close>. What was written before an
  exception stays written, so a throw carries the state it leaves behind.
\<close>

function widget_dispose :: "nat \<Rightarrow> cursor_state \<Rightarrow> error \<times> cursor_state + cursor_state"
  and removeCursor :: "js_value \<Rightarrow> cursor_state \<Rightarrow> error \<times> cursor_state + cursor_state" where
  "widget_dispose a s =
     (case deref (rcm_heap s) a of
        None \<Rightarrow> Inl (dangling, s)
      | Some w \<Rightarrow>
          (if cw_disposed w then Inr s
           else
             (case cw_onDisposed w of
                JSFunction ident \<Rightarrow>
                  removeCursor ident (s\<lparr> rcm_heap := (rcm_heap s)[a := widget_release w] \<rparr>)
              | _ \<Rightarrow>
                  Inl (TypeError ''this._onDisposed is not a function'',
                       s\<lparr> rcm_heap := (rcm_heap s)[a := widget_release w] \<rparr>))))"
| "removeCursor ident s =
     (case assertString ident ''id'' of
        Inl e \<Rightarrow> Inl (e, s)
      | Inr u \<Rightarrow>
     (case getCursor ident s of
        Inl e \<Rightarrow> Inl (e, s)
      | Inr a \<Rightarrow>
          (case deref (rcm_heap s) a of
             None \<Rightarrow> Inl (dangling, s)
           | Some remoteCursorWidget \<Rightarrow>
               (case (if \<not> widget_isDisposed remoteCursorWidget then widget_dispose a s
                      else Inr s) of
                  Inl thrown \<Rightarrow> Inl thrown
                | Inr s' \<Rightarrow>
                    Inr (s'\<lparr> rcm_cursorWidgets := (rcm_cursorWidgets s')(ident := None) \<rparr>)))))"
  by pat_completeness auto
termination
  apply (relation "measure (\<lambda>x. case x of
            Inl (a, s) \<Rightarrow> 2 * undisposed_widgets (rcm_heap s)
          | Inr (ident, s) \<Rightarrow> 2 * undisposed_widgets (rcm_heap s) + 1)")
    apply simp
   apply (auto simp: deref_def split: if_splits dest: undisposed_widgets_release)
  done

text \<open>The state a call leaves behind, whether it returned or threw.\<close>

definition state_after :: "error \<times> 's + 's \<Rightarrow> 's" where
  "state_after r = (case r of Inl (e, s) \<Rightarrow> s | Inr s \<Rightarrow> s)"

text \<open>An operation of a widget, carried out on the object behind a reference.\<close>

definition on_widget ::
  "nat \<Rightarrow> (cursor_widget \<Rightarrow> error + cursor_widget) \<Rightarrow> cursor_state \<Rightarrow> error + cursor_state" where
  "on_widget a f s =
     (case deref (rcm_heap s) a of
        None \<Rightarrow> Inl dangling
      | Some w \<Rightarrow>
          (case f w of
             Inl e \<Rightarrow> Inl e
           | Inr w' \<Rightarrow> Inr (s\<lparr> rcm_heap := (rcm_heap s)[a := w'] \<rparr>)))"

text \<open>The remaining operations of the manager: validate the id, find the widget, delegate.\<close>

definition setCursorPosition ::
  "host \<Rightarrow> buffer \<Rightarrow> js_value \<Rightarrow> position js_ref \<Rightarrow> cursor_state \<Rightarrow> error + cursor_state" where
  "setCursorPosition h buf ident pos s =
     (case assertString ident ''id'' of
        Inl e \<Rightarrow> Inl e
      | Inr u \<Rightarrow>
     (case getCursor ident s of
        Inl e \<Rightarrow> Inl e
      | Inr a \<Rightarrow> on_widget a (widget_setPosition h buf pos) s))"

definition setCursorOffset ::
  "host \<Rightarrow> buffer \<Rightarrow> js_value \<Rightarrow> js_value \<Rightarrow> cursor_state \<Rightarrow> error + cursor_state" where
  "setCursorOffset h buf ident offset s =
     (case assertString ident ''id'' of
        Inl e \<Rightarrow> Inl e
      | Inr u \<Rightarrow>
     (case getCursor ident s of
        Inl e \<Rightarrow> Inl e
      | Inr a \<Rightarrow> on_widget a (widget_setOffset h buf offset) s))"

definition showCursor :: "js_value \<Rightarrow> cursor_state \<Rightarrow> error + cursor_state" where
  "showCursor ident s =
     (case assertString ident ''id'' of
        Inl e \<Rightarrow> Inl e
      | Inr u \<Rightarrow>
     (case getCursor ident s of
        Inl e \<Rightarrow> Inl e
      | Inr a \<Rightarrow> on_widget a (\<lambda>w. Inr (widget_show w)) s))"

definition hideCursor :: "js_value \<Rightarrow> cursor_state \<Rightarrow> error + cursor_state" where
  "hideCursor ident s =
     (case assertString ident ''id'' of
        Inl e \<Rightarrow> Inl e
      | Inr u \<Rightarrow>
     (case getCursor ident s of
        Inl e \<Rightarrow> Inl e
      | Inr a \<Rightarrow> on_widget a (\<lambda>w. Inr (widget_hide w)) s))"

text \<open>The methods of the handle: each passes the call on to the widget.\<close>

fun cursor_getPosition :: "remote_cursor \<Rightarrow> cursor_state \<Rightarrow> error + position" where
  "cursor_getPosition (RemoteCursor a) s =
     (case deref (rcm_heap s) a of
        None \<Rightarrow> Inl dangling
      | Some w \<Rightarrow>
          (case widget_getPosition w of
             Ref cwp \<Rightarrow> Inr (cwp_position cwp)
           | Undefined \<Rightarrow> Inl (TypeError ''Cannot read properties of undefined (reading position)'')
           | Null \<Rightarrow> Inl (TypeError ''Cannot read properties of null (reading position)'')))"

fun cursor_setPosition ::
  "host \<Rightarrow> buffer \<Rightarrow> remote_cursor \<Rightarrow> position js_ref \<Rightarrow> cursor_state \<Rightarrow> error + cursor_state" where
  "cursor_setPosition h buf (RemoteCursor a) pos s = on_widget a (widget_setPosition h buf pos) s"

fun cursor_setOffset ::
  "host \<Rightarrow> buffer \<Rightarrow> remote_cursor \<Rightarrow> js_value \<Rightarrow> cursor_state \<Rightarrow> error + cursor_state" where
  "cursor_setOffset h buf (RemoteCursor a) offset s = on_widget a (widget_setOffset h buf offset) s"

fun cursor_show :: "remote_cursor \<Rightarrow> cursor_state \<Rightarrow> error + cursor_state" where
  "cursor_show (RemoteCursor a) s = on_widget a (\<lambda>w. Inr (widget_show w)) s"

fun cursor_hide :: "remote_cursor \<Rightarrow> cursor_state \<Rightarrow> error + cursor_state" where
  "cursor_hide (RemoteCursor a) s = on_widget a (\<lambda>w. Inr (widget_hide w)) s"

fun cursor_isDisposed :: "remote_cursor \<Rightarrow> cursor_state \<Rightarrow> error + bool" where
  "cursor_isDisposed (RemoteCursor a) s =
     (case deref (rcm_heap s) a of
        None \<Rightarrow> Inl dangling
      | Some w \<Rightarrow> Inr (widget_isDisposed w))"

fun cursor_dispose :: "remote_cursor \<Rightarrow> cursor_state \<Rightarrow> error \<times> cursor_state + cursor_state" where
  "cursor_dispose (RemoteCursor a) s = widget_dispose a s"

section \<open>Notions used in the statements\<close>

text \<open>Buffer order of positions: by line number, then by column.\<close>

definition position_le :: "position \<Rightarrow> position \<Rightarrow> bool" where
  "position_le a b =
     (lineNumber a < lineNumber b \<or> (lineNumber a = lineNumber b \<and> column a \<le> column b))"




text \<open>
  The equations of the mutually recursive functions are unfolded only where a
  proof asks for them.
\<close>

declare widget_dispose.simps [simp del] removeCursor.simps [simp del]

declare selection_dispose.simps [simp del] removeSelection.simps [simp del]

section \<open>The line translator\<close>

text \<open>Its two functions unfolded; the offset it returns always lies in the buffer.\<close>

lemma line_host_simps:
  "getPositionAt line_host buf off =
     (case walk_position buf (nat off) (1, 1) of (l, c) \<Rightarrow> \<lparr> lineNumber = int l, column = int c \<rparr>)"
  "getOffsetAt line_host buf pos = int (walk_offset buf (1, 1) (lineNumber pos, column pos))"
  "normaliseText line_host buf txt = line_ends txt"
  by (simp_all add: line_host_def)

lemma walk_offset_le: "walk_offset buf cur tgt \<le> length buf"
  by (induction buf cur tgt rule: walk_offset.induct) auto

lemma line_host_offset_bounds:
  "0 \<le> getOffsetAt line_host buf pos \<and> getOffsetAt line_host buf pos \<le> int (length buf)"
  using walk_offset_le [of buf "(1, 1)" "(lineNumber pos, column pos)"]
  by (simp add: line_host_def)




section \<open>Re-anchoring a cursor\<close>

text \<open>
  What the three handlers store. Each computes the new offset, asks the model
  for its position and stores the offset the model gives back for that
  position. When the model translates the new offset there and back unchanged,
  the stored offset is the computed one.
\<close>

lemma widget_onInsert_offset:
  assumes "cw_position w = Ref cp" and "cw_offset w = p"
  shows "(i \<le> p \<longrightarrow> translates_back h buf (p + int (length txt)) \<longrightarrow>
            cw_offset (widget_onInsert h buf i txt w) = p + int (length txt))
       \<and> (p < i \<longrightarrow> cw_offset (widget_onInsert h buf i txt w) = p)"
  using assms
  by (simp add: widget_onInsert_def widget_updatePosition_def translates_back_def Let_def)

lemma widget_onReplace_offset:
  assumes "cw_position w = Ref cp" and "cw_offset w = p"
  shows "(i \<le> p \<longrightarrow> translates_back h buf ((p - min (p - i) len) + int (length txt)) \<longrightarrow>
            cw_offset (widget_onReplace h buf i len txt w) = (p - min (p - i) len) + int (length txt))
       \<and> (p < i \<longrightarrow> cw_offset (widget_onReplace h buf i len txt w) = p)
       \<and> widget_onDelete h buf i len w = widget_onReplace h buf i len [] w
       \<and> (i \<le> p \<longrightarrow> translates_back h buf (p - min (p - i) len) \<longrightarrow>
            cw_offset (widget_onDelete h buf i len w) = p - min (p - i) len)
       \<and> (p < i \<longrightarrow> cw_offset (widget_onDelete h buf i len w) = p)
       \<and> (i \<le> p \<longrightarrow> p \<le> i + len \<longrightarrow> translates_back h buf i \<longrightarrow>
            cw_offset (widget_onDelete h buf i len w) = i)"
proof -
  have del: "widget_onDelete h buf i len w = widget_onReplace h buf i len [] w"
    by (simp add: widget_onDelete_def widget_onReplace_def Let_def)
  have inside: "p - min (p - i) len = i" if "i \<le> p" "p \<le> i + len"
    using that by (simp add: min_def)
  show ?thesis
    using assms inside
    by (simp add: del widget_onReplace_def widget_updatePosition_def translates_back_def Let_def)
qed

text \<open>
  C1. A positioned cursor that stores offset \<open>p\<close> and observes an insert of
  length \<open>L\<close> at \<open>i \<le> p\<close> is to store \<open>p + L\<close>. The handler computes
  \<open>p + L\<close> but stores what the model answers for it, and it runs when the
  buffer already has the content the whole event leaves. A cursor sits at
  offset 5, the end of \<open>hello\<close>. The user, with a selection over \<open>hel\<close> and
  a caret at the end, types \<open>a\<close>: one event with the insert of \<open>a\<close> at 5
  and the replacement of three characters at 0, the buffer now \<open>aloa\<close>. The
  insert is delivered to \<open>_onInsert(5, a)\<close>, which stores 4 where \<open>p + L\<close>
  is 6; after the event the cursor stands at 2, while the end of the text it
  stood at is 4.
\<close>

theorem insert_in_event_of_two_changes:
  "cw_offset
        (widget_updatePosition line_host ''hello'' \<lparr> lineNumber = 1, column = 6 \<rparr>
           (new_RemoteCursorWidget 0 (JSString ''blue'') (JSString ''John'') (JSBoolean True) (JSNumber 1000)
              (JSFunction (JSString ''jDoe'')) JSUndefined JSUndefined JSUndefined)) = 5
   \<and> cw_offset (widget_onInsert line_host ''aloa'' 5 ''a''
        (widget_updatePosition line_host ''hello'' \<lparr> lineNumber = 1, column = 6 \<rparr>
           (new_RemoteCursorWidget 0 (JSString ''blue'') (JSString ''John'') (JSBoolean True) (JSNumber 1000)
              (JSFunction (JSString ''jDoe'')) JSUndefined JSUndefined JSUndefined))) = 4
   \<and> apply_event line_host
        [\<lparr> rangeOffset = 5, rangeLength = 0, changeText = ''a'' \<rparr>,
         \<lparr> rangeOffset = 0, rangeLength = 3, changeText = ''a'' \<rparr>]
        \<lparr> ed_buffer = ''hello'',
          ed_subscribers = [Marker
        (widget_updatePosition line_host ''hello'' \<lparr> lineNumber = 1, column = 6 \<rparr>
           (new_RemoteCursorWidget 0 (JSString ''blue'') (JSString ''John'') (JSBoolean True) (JSNumber 1000)
              (JSFunction (JSString ''jDoe'')) JSUndefined JSUndefined JSUndefined))],
          ed_selections = [] \<rparr>
      = Inr \<lparr> ed_buffer = ''aloa'',
              ed_subscribers = [Marker (widget_onReplace line_host ''aloa'' 0 3 ''a''
                 (widget_onInsert line_host ''aloa'' 5 ''a''
        (widget_updatePosition line_host ''hello'' \<lparr> lineNumber = 1, column = 6 \<rparr>
           (new_RemoteCursorWidget 0 (JSString ''blue'') (JSString ''John'') (JSBoolean True) (JSNumber 1000)
              (JSFunction (JSString ''jDoe'')) JSUndefined JSUndefined JSUndefined))))],
              ed_selections = [] \<rparr>
   \<and> cw_offset (widget_onReplace line_host ''aloa'' 0 3 ''a''
        (widget_onInsert line_host ''aloa'' 5 ''a''
        (widget_updatePosition line_host ''hello'' \<lparr> lineNumber = 1, column = 6 \<rparr>
           (new_RemoteCursorWidget 0 (JSString ''blue'') (JSString ''John'') (JSBoolean True) (JSNumber 1000)
              (JSFunction (JSString ''jDoe'')) JSUndefined JSUndefined JSUndefined)))) = 2"
  by (simp add: apply_event_def splice_def contentManager_onContentChanged_def
      contentManager_processChange_def assertDefined_def widget_options_def
      widget_onInsert_def widget_onReplace_def widget_updatePosition_def
      new_RemoteCursorWidget_def new_content_manager_def
      line_host_simps line_feed_def Let_def)

text \<open>
  C2. A positioned cursor that stores offset \<open>p\<close> and observes a replace at
  \<open>i \<le> p\<close> is to store \<open>(p - min (p - i) len) + L\<close>, and likewise for a
  delete with \<open>L = 0\<close>. The handlers compute that offset but store what the
  model answers for it on the buffer the whole event leaves. A cursor sits at
  offset 6, the end of \<open>ab12ab\<close>, and every \<open>ab\<close> is replaced by \<open>c\<close>:
  one event with two replacements, the buffer now \<open>c12c\<close>. The first is
  delivered to \<open>_onReplace(4, 2, c)\<close>, which stores 4 where the rule gives
  5; after the event the cursor stands at 3, while the end of the text is 4.
  In the same way, with the cursor at the end of \<open>hello\<close> and \<open>o\<close> and
  \<open>hel\<close> deleted in one event, \<open>_onDelete(4, 1)\<close> stores 1 where the rule
  gives 4, and the cursor ends at 0 in the buffer \<open>l\<close>.
\<close>

theorem replace_in_event_of_two_changes:
  "cw_offset
        (widget_updatePosition line_host ''ab12ab'' \<lparr> lineNumber = 1, column = 7 \<rparr>
           (new_RemoteCursorWidget 0 (JSString ''blue'') (JSString ''John'') (JSBoolean True) (JSNumber 1000)
              (JSFunction (JSString ''jDoe'')) JSUndefined JSUndefined JSUndefined)) = 6
   \<and> cw_offset (widget_onReplace line_host ''c12c'' 4 2 ''c''
        (widget_updatePosition line_host ''ab12ab'' \<lparr> lineNumber = 1, column = 7 \<rparr>
           (new_RemoteCursorWidget 0 (JSString ''blue'') (JSString ''John'') (JSBoolean True) (JSNumber 1000)
              (JSFunction (JSString ''jDoe'')) JSUndefined JSUndefined JSUndefined))) = 4
   \<and> apply_event line_host
        [\<lparr> rangeOffset = 4, rangeLength = 2, changeText = ''c'' \<rparr>,
         \<lparr> rangeOffset = 0, rangeLength = 2, changeText = ''c'' \<rparr>]
        \<lparr> ed_buffer = ''ab12ab'',
          ed_subscribers = [Marker
        (widget_updatePosition line_host ''ab12ab'' \<lparr> lineNumber = 1, column = 7 \<rparr>
           (new_RemoteCursorWidget 0 (JSString ''blue'') (JSString ''John'') (JSBoolean True) (JSNumber 1000)
              (JSFunction (JSString ''jDoe'')) JSUndefined JSUndefined JSUndefined))],
          ed_selections = [] \<rparr>
      = Inr \<lparr> ed_buffer = ''c12c'',
              ed_subscribers = [Marker (widget_onReplace line_host ''c12c'' 0 2 ''c''
                 (widget_onReplace line_host ''c12c'' 4 2 ''c''
        (widget_updatePosition line_host ''ab12ab'' \<lparr> lineNumber = 1, column = 7 \<rparr>
           (new_RemoteCursorWidget 0 (JSString ''blue'') (JSString ''John'') (JSBoolean True) (JSNumber 1000)
              (JSFunction (JSString ''jDoe'')) JSUndefined JSUndefined JSUndefined))))],
              ed_selections = [] \<rparr>
   \<and> cw_offset (widget_onReplace line_host ''c12c'' 0 2 ''c''
        (widget_onReplace line_host ''c12c'' 4 2 ''c''
        (widget_updatePosition line_host ''ab12ab'' \<lparr> lineNumber = 1, column = 7 \<rparr>
           (new_RemoteCursorWidget 0 (JSString ''blue'') (JSString ''John'') (JSBoolean True) (JSNumber 1000)
              (JSFunction (JSString ''jDoe'')) JSUndefined JSUndefined JSUndefined)))) = 3
   \<and> cw_offset (widget_onDelete line_host ''l'' 4 1
        (widget_updatePosition line_host ''hello'' \<lparr> lineNumber = 1, column = 6 \<rparr>
           (new_RemoteCursorWidget 0 (JSString ''blue'') (JSString ''John'') (JSBoolean True) (JSNumber 1000)
              (JSFunction (JSString ''jDoe'')) JSUndefined JSUndefined JSUndefined))) = 1
   \<and> apply_event line_host
        [\<lparr> rangeOffset = 4, rangeLength = 1, changeText = [] \<rparr>,
         \<lparr> rangeOffset = 0, rangeLength = 3, changeText = [] \<rparr>]
        \<lparr> ed_buffer = ''hello'',
          ed_subscribers = [Marker
        (widget_updatePosition line_host ''hello'' \<lparr> lineNumber = 1, column = 6 \<rparr>
           (new_RemoteCursorWidget 0 (JSString ''blue'') (JSString ''John'') (JSBoolean True) (JSNumber 1000)
              (JSFunction (JSString ''jDoe'')) JSUndefined JSUndefined JSUndefined))],
          ed_selections = [] \<rparr>
      = Inr \<lparr> ed_buffer = ''l'',
              ed_subscribers = [Marker (widget_onDelete line_host ''l'' 0 3
                 (widget_onDelete line_host ''l'' 4 1
        (widget_updatePosition line_host ''hello'' \<lparr> lineNumber = 1, column = 6 \<rparr>
           (new_RemoteCursorWidget 0 (JSString ''blue'') (JSString ''John'') (JSBoolean True) (JSNumber 1000)
              (JSFunction (JSString ''jDoe'')) JSUndefined JSUndefined JSUndefined))))],
              ed_selections = [] \<rparr>
   \<and> cw_offset (widget_onDelete line_host ''l'' 0 3
        (widget_onDelete line_host ''l'' 4 1
        (widget_updatePosition line_host ''hello'' \<lparr> lineNumber = 1, column = 6 \<rparr>
           (new_RemoteCursorWidget 0 (JSString ''blue'') (JSString ''John'') (JSBoolean True) (JSNumber 1000)
              (JSFunction (JSString ''jDoe'')) JSUndefined JSUndefined JSUndefined)))) = 0"
  by (simp add: apply_event_def splice_def contentManager_onContentChanged_def
      contentManager_processChange_def assertDefined_def widget_options_def
      widget_onInsert_def widget_onReplace_def widget_onDelete_def widget_updatePosition_def
      new_RemoteCursorWidget_def new_content_manager_def
      line_host_simps line_feed_def Let_def)

section \<open>Classifying a change\<close>

text \<open>
  C5. A raw change with new text \<open>txt\<close> and an affected range of length
  \<open>len\<close> has exactly one outcome: \<open>onInsert(offset, text)\<close> when the text
  is not empty and \<open>len = 0\<close>; \<open>onReplace(offset, len, text)\<close> when the text
  is not empty and \<open>len > 0\<close>; \<open>onDelete(offset, len)\<close> when the text is
  empty and \<open>len > 0\<close>; and an error of its own when both are empty.
\<close>

theorem change_classification:
  "(txt \<noteq> [] \<and> len = 0 \<longrightarrow>
      contentManager_processChange opts buf
        (Ref \<lparr> rangeOffset = off, rangeLength = len, changeText = txt \<rparr>) s
      = Inr (onInsert opts buf off txt s))
   \<and> (txt \<noteq> [] \<and> 0 < len \<longrightarrow>
      contentManager_processChange opts buf
        (Ref \<lparr> rangeOffset = off, rangeLength = len, changeText = txt \<rparr>) s
      = Inr (onReplace opts buf off len txt s))
   \<and> (txt = [] \<and> 0 < len \<longrightarrow>
      contentManager_processChange opts buf
        (Ref \<lparr> rangeOffset = off, rangeLength = len, changeText = txt \<rparr>) s
      = Inr (onDelete opts buf off len s))
   \<and> (txt = [] \<and> len = 0 \<longrightarrow>
      contentManager_processChange opts buf
        (Ref \<lparr> rangeOffset = off, rangeLength = len, changeText = txt \<rparr>) s
      = Inl (Error ''Unexpected change: ''))"
  by (simp add: contentManager_processChange_def assertDefined_def)

text \<open>With callbacks that record their calls, each kind of change leaves one record.\<close>

theorem change_classification_witness:
  "contentManager_processChange recording_options ''hello''
       (Ref \<lparr> rangeOffset = 5, rangeLength = 0, changeText = ''abc'' \<rparr>) [] = Inr [OnInsert 5 ''abc'']
   \<and> contentManager_processChange recording_options ''hello''
       (Ref \<lparr> rangeOffset = 5, rangeLength = 2, changeText = ''abc'' \<rparr>) [] = Inr [OnReplace 5 2 ''abc'']
   \<and> contentManager_processChange recording_options ''hello''
       (Ref \<lparr> rangeOffset = 5, rangeLength = 2, changeText = [] \<rparr>) [] = Inr [OnDelete 5 2]
   \<and> contentManager_processChange recording_options ''hello''
       (Ref \<lparr> rangeOffset = 5, rangeLength = 0, changeText = [] \<rparr>) ([] :: callback_call list)
       = Inl (Error ''Unexpected change: '')"
  using
    change_classification [of "''abc''" 0 recording_options "''hello''" 5 "[]"]
    change_classification [of "''abc''" 2 recording_options "''hello''" 5 "[]"]
    change_classification [of "[]" 2 recording_options "''hello''" 5 "[]"]
    change_classification [of "[]" 0 recording_options "''hello''" 5 "[]"]
  by (simp add: recording_options_def)

section \<open>Delivering a change to the subscribers\<close>








section \<open>Programmatic edits\<close>










text \<open>
  The text of a programmatic edit reaches the buffer with the line ends the
  host writes. The bridge inserts \<open>a\<close>, a carriage return, a line feed and
  \<open>b\<close> at offset 0 of \<open>hello world\<close>: three characters arrive, and the
  cursor at offset 6 moves to 9, which is line 2, column 8.
\<close>

lemma programmatic_insert_line_ends:
  "(case contentManager_insert line_host 0 0 [CHR ''a'', carriage_return, line_feed, CHR ''b'']
           \<lparr> ed_buffer = ''hello world'',
             ed_subscribers = [Bridge new_content_manager [], Marker
               (widget_updatePosition line_host ''hello world'' \<lparr> lineNumber = 1, column = 7 \<rparr>
                (new_RemoteCursorWidget 0 (JSString ''blue'') (JSString ''John'') (JSBoolean True) (JSNumber 1000)
                 (JSFunction (JSString ''jDoe'')) JSUndefined JSUndefined JSUndefined))],
             ed_selections = [] \<rparr> of
      Inl e \<Rightarrow> False
    | Inr ed' \<Rightarrow>
        ed_buffer ed' = [CHR ''a'', line_feed, CHR ''b''] @ ''hello world''
        \<and> ed_subscribers ed' ! 0 = Bridge new_content_manager []
        \<and> (case ed_subscribers ed' ! 1 of
             Bridge cm calls \<Rightarrow> False
           | Marker w' \<Rightarrow>
               cw_offset w' = 9
               \<and> cw_position w' = Ref \<lparr> cwp_position = \<lparr> lineNumber = 2, column = 8 \<rparr>,
                                       cwp_preference = [EXACT] \<rparr>))"
  by (simp add: contentManager_insert_def executeEdits_def edit_change_def
      set_suppress_def apply_change_def splice_def contentManager_onContentChanged_def
      contentManager_processChange_def assertDefined_def widget_options_def recording_options_def
      widget_onInsert_def widget_updatePosition_def
      new_RemoteCursorWidget_def new_content_manager_def
      line_host_simps line_feed_def carriage_return_def Let_def)

section \<open>The offset of a marker stays inside the buffer\<close>






section \<open>The ordered pair of a selection\<close>

lemma selection_setPositions_result:
  "selection_setPositions a b sel =
     selection_render (sel\<lparr> rs_startPosition := Ref (if position_le a b then a else b),
                            rs_endPosition := Ref (if position_le a b then b else a) \<rparr>)"
  by (simp add: selection_setPositions_def swapIfNeeded_def position_le_def Let_def)

lemma selection_render_positioned:
  "rs_startPosition sel = Ref a \<Longrightarrow> rs_endPosition sel = Ref b \<Longrightarrow>
   \<exists>sel'. selection_render sel = Inr sel'
        \<and> rs_startPosition sel' = Ref a \<and> rs_endPosition sel' = Ref b
        \<and> rs_disposed sel' = rs_disposed sel"
  by (simp add: selection_render_def)

lemma position_le_total: "position_le a b \<or> position_le b a"
  by (auto simp: position_le_def)

lemma selection_setPositions_ok:
  "\<exists>sel'. selection_setPositions p q sel = Inr sel'"
  by (simp add: selection_setPositions_def selection_render_def Let_def)

lemma selection_show_positioned:
  "rs_startPosition sel = Ref u \<Longrightarrow> rs_endPosition sel = Ref v \<Longrightarrow>
   \<exists>sel'. selection_show sel = Inr sel' \<and> rs_decorations sel' \<noteq> []"
  by (simp add: selection_show_def selection_render_def)

text \<open>
  C6. \<open>setPositions\<close> always returns and leaves the two stored positions in
  buffer order: the pair as given when the start is not after the end, the
  swapped pair otherwise. \<open>setOffsets\<close> is \<open>setPositions\<close> of the positions
  of its two offsets; with start 50 and end 40 the stored start is the position
  of offset 40 and the stored end the position of offset 50 (the model putting
  offset 40 not after offset 50).
\<close>

theorem setPositions_orders_pair:
  "(\<exists>sel'. selection_setPositions a b sel = Inr sel'
        \<and> rs_startPosition sel' = Ref (if position_le a b then a else b)
        \<and> rs_endPosition sel' = Ref (if position_le a b then b else a)
        \<and> position_le (if position_le a b then a else b) (if position_le a b then b else a))
   \<and> selection_setOffsets h buf x y sel
        = selection_setPositions (getPositionAt h buf x) (getPositionAt h buf y) sel
   \<and> (position_le (getPositionAt h buf 40) (getPositionAt h buf 50) \<longrightarrow>
        (\<exists>sel'. selection_setOffsets h buf 50 40 sel = Inr sel'
           \<and> rs_startPosition sel' = Ref (getPositionAt h buf 40)
           \<and> rs_endPosition sel' = Ref (getPositionAt h buf 50)))"
proof (intro conjI impI)
  let ?s = "if position_le a b then a else b" and ?e = "if position_le a b then b else a"
  have ord: "position_le ?s ?e"
    using position_le_total [of a b] by auto
  obtain sel' where "selection_setPositions a b sel = Inr sel'"
    "rs_startPosition sel' = Ref ?s" "rs_endPosition sel' = Ref ?e"
    using selection_render_positioned
      [of "sel\<lparr> rs_startPosition := Ref ?s, rs_endPosition := Ref ?e \<rparr>" ?s ?e]
    unfolding selection_setPositions_result by auto
  with ord show "\<exists>sel'. selection_setPositions a b sel = Inr sel'
        \<and> rs_startPosition sel' = Ref ?s \<and> rs_endPosition sel' = Ref ?e \<and> position_le ?s ?e"
    by blast
next
  show "selection_setOffsets h buf x y sel
        = selection_setPositions (getPositionAt h buf x) (getPositionAt h buf y) sel"
    by (simp add: selection_setOffsets_def Let_def)
next
  let ?p = "getPositionAt h buf 40" and ?q = "getPositionAt h buf 50"
  assume le: "position_le ?p ?q"
  have eq: "(if position_le ?q ?p then ?q else ?p) = ?p \<and> (if position_le ?q ?p then ?p else ?q) = ?q"
  proof (cases "position_le ?q ?p")
    case True
    with le have "lineNumber ?p = lineNumber ?q" "column ?p = column ?q"
      by (auto simp: position_le_def)
    then have "?p = ?q" by simp
    then show ?thesis by simp
  next
    case False
    then show ?thesis by simp
  qed
  obtain sel' where "selection_setPositions ?q ?p sel = Inr sel'"
    "rs_startPosition sel' = Ref ?p" "rs_endPosition sel' = Ref ?q"
    using selection_render_positioned
      [of "sel\<lparr> rs_startPosition := Ref ?p, rs_endPosition := Ref ?q \<rparr>" ?p ?q] eq
    unfolding selection_setPositions_result by auto
  then show "\<exists>sel'. selection_setOffsets h buf 50 40 sel = Inr sel'
           \<and> rs_startPosition sel' = Ref ?p \<and> rs_endPosition sel' = Ref ?q"
    by (simp add: selection_setOffsets_def Let_def)
qed

text \<open>A selection over a three-line buffer, set with offsets 50 and 40.\<close>

theorem setPositions_orders_pair_witness:
  "position_le
     (getPositionAt line_host (''const a = 1;'' @ [line_feed] @ ''const b = 2;'' @ [line_feed] @ ''function helloWorld() { return a + b; }'') 40)
     (getPositionAt line_host (''const a = 1;'' @ [line_feed] @ ''const b = 2;'' @ [line_feed] @ ''function helloWorld() { return a + b; }'') 50)
   \<and> (\<exists>sel'.
        selection_setOffsets line_host
          (''const a = 1;'' @ [line_feed] @ ''const b = 2;'' @ [line_feed] @ ''function helloWorld() { return a + b; }'')
          50 40
          \<lparr> rs_id = JSString ''jDoe'', rs_classId = 0, rs_color = JSString ''blue'',
            rs_label = JSUndefined, rs_styleAttached = True, rs_startPosition = Undefined,
            rs_endPosition = Undefined, rs_decorations = [], rs_disposed = False,
            rs_onDisposed = JSString ''jDoe'' \<rparr> = Inr sel'
        \<and> rs_startPosition sel' = Ref \<lparr> lineNumber = 3, column = 15 \<rparr>
        \<and> rs_endPosition sel' = Ref \<lparr> lineNumber = 3, column = 25 \<rparr>)"
  using setPositions_orders_pair [of
      "\<lparr> lineNumber = 3, column = 25 \<rparr>" "\<lparr> lineNumber = 3, column = 15 \<rparr>"
      "\<lparr> rs_id = JSString ''jDoe'', rs_classId = 0, rs_color = JSString ''blue'',
            rs_label = JSUndefined, rs_styleAttached = True, rs_startPosition = Undefined,
            rs_endPosition = Undefined, rs_decorations = [], rs_disposed = False,
            rs_onDisposed = JSString ''jDoe'' \<rparr>"
      line_host
      "''const a = 1;'' @ [line_feed] @ ''const b = 2;'' @ [line_feed] @ ''function helloWorld() { return a + b; }''"]
  by (simp add: line_host_simps line_feed_def position_le_def)

section \<open>Registries, handles and disposal\<close>

text \<open>
  Disposal only ever sets flags: the objects stay where they are and a flag
  once set stays set, whether a call returns or throws. Once \<open>dispose\<close>
  has been called on a cursor its flag is set; once \<open>dispose\<close> of a
  selection has returned, its flag is set.
\<close>

lemma deref_append_new: "deref (heap @ [x]) (length heap) = Some x"
  by (simp add: deref_def)

lemma deref_update: "a < length heap \<Longrightarrow> deref (heap[a := x]) a = Some x"
  by (simp add: deref_def)

lemma deref_Some: "deref heap a = Some x \<Longrightarrow> a < length heap \<and> heap ! a = x"
  by (auto simp: deref_def split: if_splits)

lemma on_widget_at:
  "a < length (rcm_heap s) \<Longrightarrow>
   on_widget a f s =
     (case f (rcm_heap s ! a) of
        Inl e \<Rightarrow> Inl e
      | Inr w' \<Rightarrow> Inr (s\<lparr> rcm_heap := (rcm_heap s)[a := w'] \<rparr>))"
  by (simp add: on_widget_def deref_def)

lemma on_selection_at:
  "a < length (rsm_heap s) \<Longrightarrow>
   on_selection a f s =
     (case f (rsm_heap s ! a) of
        Inl e \<Rightarrow> Inl e
      | Inr sel' \<Rightarrow> Inr (s\<lparr> rsm_heap := (rsm_heap s)[a := sel'] \<rparr>))"
  by (simp add: on_selection_def deref_def)

lemma addCursor_result:
  assumes "addCursor ident color label s = Inr (s1, c)"
  shows "c = RemoteCursor (length (rcm_heap s))"
    and "deref (rcm_heap s1) (length (rcm_heap s))
           = Some (new_RemoteCursorWidget (rcm_nextWidgetId s) color label (JSBoolean (rcm_tooltips s))
                     (JSNumber (rcm_tooltipDuration s * 1000)) (JSFunction ident)
                     JSUndefined JSUndefined JSUndefined)"
  using assms
  by (auto simp: addCursor_def assertString_def Let_def deref_append_new split: if_splits)

lemma state_after_simps:
  "state_after (Inl (e, s)) = s"
  "state_after (Inr s) = s"
  by (simp_all add: state_after_def)

lemma cursor_dispose_monotone:
  "length (rcm_heap (state_after (widget_dispose a s))) = length (rcm_heap s)
     \<and> (\<forall>b < length (rcm_heap s). cw_disposed (rcm_heap s ! b) \<longrightarrow>
           cw_disposed (rcm_heap (state_after (widget_dispose a s)) ! b))"
  "length (rcm_heap (state_after (removeCursor ident s))) = length (rcm_heap s)
     \<and> (\<forall>b < length (rcm_heap s). cw_disposed (rcm_heap s ! b) \<longrightarrow>
           cw_disposed (rcm_heap (state_after (removeCursor ident s)) ! b))"
proof (induction a s and ident s rule: widget_dispose_removeCursor.induct)
  case (1 a s)
  show ?case
  proof (cases "deref (rcm_heap s) a")
    case None
    then show ?thesis by (simp add: widget_dispose.simps state_after_simps)
  next
    case (Some w)
    show ?thesis
    proof (cases "cw_disposed w")
      case True
      with Some show ?thesis by (simp add: widget_dispose.simps state_after_simps)
    next
      case False
      let ?s1 = "s\<lparr> rcm_heap := (rcm_heap s)[a := widget_release w] \<rparr>"
      have step: "cw_disposed (rcm_heap ?s1 ! b)"
        if "b < length (rcm_heap s)" "cw_disposed (rcm_heap s ! b)" for b
        using that by (cases "b = a") (simp_all add: widget_release_def)
      show ?thesis
      proof (cases "\<exists>ident. cw_onDisposed w = JSFunction ident")
        case True
        then obtain ident where f: "cw_onDisposed w = JSFunction ident" by blast
        from Some False f have run: "widget_dispose a s = removeCursor ident ?s1"
          by (simp add: widget_dispose.simps)
        from "1.IH" [OF Some False f]
        have len: "length (rcm_heap (state_after (removeCursor ident ?s1))) = length (rcm_heap s)"
          and keep: "\<forall>b < length (rcm_heap s).
              cw_disposed (rcm_heap ?s1 ! b) \<longrightarrow>
              cw_disposed (rcm_heap (state_after (removeCursor ident ?s1)) ! b)"
          by simp_all
        from keep step have "\<forall>b < length (rcm_heap s). cw_disposed (rcm_heap s ! b) \<longrightarrow>
              cw_disposed (rcm_heap (state_after (removeCursor ident ?s1)) ! b)"
          by blast
        with len show ?thesis unfolding run by blast
      next
        case no: False
        with Some False
        have run: "widget_dispose a s = Inl (TypeError ''this._onDisposed is not a function'', ?s1)"
          by (cases "cw_onDisposed w") (simp_all add: widget_dispose.simps)
        from step show ?thesis unfolding run state_after_simps by simp
      qed
    qed
  qed
next
  case (2 ident s)
  show ?case
  proof (cases "assertString ident ''id''")
    case (Inl e)
    then show ?thesis by (simp add: removeCursor.simps state_after_simps)
  next
    case str: (Inr u)
    show ?thesis
    proof (cases "getCursor ident s")
      case (Inl e)
      with str show ?thesis by (simp add: removeCursor.simps state_after_simps)
    next
      case got: (Inr a)
      show ?thesis
      proof (cases "deref (rcm_heap s) a")
        case None
        with str got show ?thesis by (simp add: removeCursor.simps state_after_simps)
      next
        case (Some w)
        show ?thesis
        proof (cases "widget_isDisposed w")
          case True
          with str got Some show ?thesis by (simp add: removeCursor.simps state_after_simps)
        next
          case False
          note IH = "2.IH" [OF str got Some False]
          show ?thesis
          proof (cases "widget_dispose a s")
            case (Inl thrown)
            with str got Some False have "removeCursor ident s = Inl thrown"
              by (simp add: removeCursor.simps)
            with IH Inl show ?thesis by simp
          next
            case (Inr s')
            with str got Some False
            have "removeCursor ident s
                    = Inr (s'\<lparr> rcm_cursorWidgets := (rcm_cursorWidgets s')(ident := None) \<rparr>)"
              by (simp add: removeCursor.simps)
            with IH Inr show ?thesis by (simp add: state_after_simps)
          qed
        qed
      qed
    qed
  qed
qed

lemma widget_dispose_sets_flag:
  assumes a: "a < length (rcm_heap s)"
  shows "a < length (rcm_heap (state_after (widget_dispose a s)))
       \<and> cw_disposed (rcm_heap (state_after (widget_dispose a s)) ! a)"
proof -
  let ?w = "rcm_heap s ! a"
  from a have obj: "deref (rcm_heap s) a = Some ?w" by (simp add: deref_def)
  show ?thesis
  proof (cases "cw_disposed ?w")
    case True
    with obj a show ?thesis by (simp add: widget_dispose.simps state_after_simps)
  next
    case False
    let ?s1 = "s\<lparr> rcm_heap := (rcm_heap s)[a := widget_release ?w] \<rparr>"
    have flag: "a < length (rcm_heap ?s1)" "cw_disposed (rcm_heap ?s1 ! a)"
      using a by (simp_all add: widget_release_def)
    show ?thesis
    proof (cases "\<exists>ident. cw_onDisposed ?w = JSFunction ident")
      case True
      then obtain ident where f: "cw_onDisposed ?w = JSFunction ident" by blast
      from obj False f have run: "widget_dispose a s = removeCursor ident ?s1"
        by (simp add: widget_dispose.simps)
      from cursor_dispose_monotone(2) [of ident ?s1] flag show ?thesis
        unfolding run by simp
    next
      case no: False
      with obj False
      have run: "widget_dispose a s = Inl (TypeError ''this._onDisposed is not a function'', ?s1)"
        by (cases "cw_onDisposed ?w") (simp_all add: widget_dispose.simps)
      from flag show ?thesis unfolding run state_after_simps by simp
    qed
  qed
qed

lemma selection_dispose_monotone:
  "selection_dispose a s = Inr s' \<Longrightarrow>
     rsm_remoteSelections s' = rsm_remoteSelections s
     \<and> length (rsm_heap s') = length (rsm_heap s)
     \<and> (\<forall>b < length (rsm_heap s). rs_disposed (rsm_heap s ! b) \<longrightarrow> rs_disposed (rsm_heap s' ! b))"
  "removeSelection ident s = Inr s' \<Longrightarrow>
     rsm_remoteSelections s' = rsm_remoteSelections s
     \<and> length (rsm_heap s') = length (rsm_heap s)
     \<and> (\<forall>b < length (rsm_heap s). rs_disposed (rsm_heap s ! b) \<longrightarrow> rs_disposed (rsm_heap s' ! b))"
proof (induction a s and ident s arbitrary: s' and s' rule: selection_dispose_removeSelection.induct)
  case (1 a s)
  show ?case
  proof (cases "deref (rsm_heap s) a")
    case None
    with "1.prems" show ?thesis by (simp add: selection_dispose.simps)
  next
    case (Some sel)
    show ?thesis
    proof (cases "rs_disposed sel")
      case True
      with Some "1.prems" show ?thesis by (simp add: selection_dispose.simps)
    next
      case False
      let ?s1 = "s\<lparr> rsm_heap := (rsm_heap s)[a := selection_release sel] \<rparr>"
      from Some False "1.prems" have run: "removeSelection (rs_onDisposed sel) ?s1 = Inr s'"
        by (simp add: selection_dispose.simps)
      from "1.IH" [OF Some False run]
      have reg: "rsm_remoteSelections s' = rsm_remoteSelections s"
        and len: "length (rsm_heap s') = length (rsm_heap s)"
        and keep: "\<forall>b < length (rsm_heap s).
            rs_disposed ((rsm_heap s)[a := selection_release sel] ! b) \<longrightarrow> rs_disposed (rsm_heap s' ! b)"
        by simp_all
      have "rs_disposed (rsm_heap s' ! b)" if "b < length (rsm_heap s)" "rs_disposed (rsm_heap s ! b)" for b
      proof -
        from that have "rs_disposed ((rsm_heap s)[a := selection_release sel] ! b)"
          by (cases "b = a") (simp_all add: selection_release_def selection_hide_def)
        with keep that show ?thesis by blast
      qed
      with reg len show ?thesis by blast
    qed
  qed
next
  case (2 ident s)
  from "2.prems" obtain a sel where
    got: "getSelection ident s = Inr a" and
    obj: "deref (rsm_heap s) a = Some sel" and
    run: "(if \<not> selection_isDisposed sel then selection_dispose a s else Inr s) = Inr s'"
    by (auto simp: removeSelection.simps split: sum.splits option.splits)
  show ?case
  proof (cases "selection_isDisposed sel")
    case True
    with run show ?thesis by auto
  next
    case False
    with run have "selection_dispose a s = Inr s'" by simp
    from "2.IH" [OF got obj False this] show ?thesis by simp
  qed
qed

lemma selection_dispose_sets_flag:
  assumes "selection_dispose a s = Inr s1"
  shows "a < length (rsm_heap s1) \<and> rs_disposed (rsm_heap s1 ! a)"
proof (cases "deref (rsm_heap s) a")
  case None
  with assms show ?thesis by (simp add: selection_dispose.simps)
next
  case (Some sel)
  then have a: "a < length (rsm_heap s)" and w: "rsm_heap s ! a = sel"
    by (simp_all add: deref_Some)
  show ?thesis
  proof (cases "rs_disposed sel")
    case True
    with Some assms a w show ?thesis by (simp add: selection_dispose.simps)
  next
    case False
    let ?s1 = "s\<lparr> rsm_heap := (rsm_heap s)[a := selection_release sel] \<rparr>"
    from Some False assms have "removeSelection (rs_onDisposed sel) ?s1 = Inr s1"
      by (simp add: selection_dispose.simps)
    from selection_dispose_monotone(2) [OF this] a show ?thesis
      by (simp add: selection_release_def selection_hide_def)
  qed
qed

text \<open>
  C7. \<open>remove(id)\<close> disposes the marker and deletes the registry entry, and
  on an id whose marker is already disposed it is a no-op. For the selection
  manager the code does not do this: a selection is added under \<open>jDoe\<close> and
  removed; it is disposed, its entry is still in \<open>_remoteSelections\<close>, and a
  second \<open>removeSelection\<close> changes nothing. (\<open>removeCursor\<close> ends by
  deleting the entry, see \<open>removeCursor_deletes_entry\<close>.)
\<close>

theorem removeSelection_leaves_entry:
  "(case addSelection (JSString ''jDoe'') (JSString ''blue'') JSUndefined new_RemoteSelectionManager of
      Inl e \<Rightarrow> False
    | Inr (s1, selection) \<Rightarrow>
        (case removeSelection (JSString ''jDoe'') s1 of
           Inl e \<Rightarrow> False
         | Inr s2 \<Rightarrow>
             rsm_remoteSelections s2 (JSString ''jDoe'') = Some selection
             \<and> map rs_disposed (rsm_heap s2) = [True]
             \<and> removeSelection (JSString ''jDoe'') s2 = Inr s2))"
  by (simp add: addSelection_def new_RemoteSelectionManager_def new_RemoteSelection_def
      assertString_def removeSelection.simps selection_dispose.simps getSelection_def deref_def
      selection_isDisposed_def selection_release_def selection_hide_def)

text \<open>
  In general \<open>removeSelection\<close> never changes the map, while a
  \<open>removeCursor\<close> that returns leaves the id absent. For a cursor that
  \<open>addCursor\<close> created, the first \<open>removeCursor\<close> does not return: the
  widget's \<open>dispose\<close> sets the flag and then calls \<open>_onDisposed\<close>, which
  the constructor call left undefined, so the call throws and the entry stays.
  The second \<open>removeCursor\<close> finds the widget disposed and deletes the
  entry; the third fails with the not-found error.
\<close>

lemma removeSelection_keeps_entries:
  "removeSelection ident s = Inr s' \<Longrightarrow> rsm_remoteSelections s' = rsm_remoteSelections s"
  using selection_dispose_monotone(2) [of ident s s'] by simp

lemma removeCursor_deletes_entry:
  "removeCursor ident s = Inr s' \<Longrightarrow> rcm_cursorWidgets s' ident = None"
  by (auto simp: removeCursor.simps split: sum.splits option.splits if_splits)

lemma removeCursor_of_added_cursor:
  "(case addCursor (JSString ''jDoe'') (JSString ''blue'') (JSString ''John'')
           \<lparr> rcm_tooltips = True, rcm_tooltipDuration = 1, rcm_nextWidgetId = 0,
             rcm_cursorWidgets = Map.empty, rcm_heap = [] \<rparr> of
      Inl e \<Rightarrow> False
    | Inr (s1, c) \<Rightarrow>
        (case removeCursor (JSString ''jDoe'') s1 of
           Inr s2 \<Rightarrow> False
         | Inl (e, s2) \<Rightarrow>
             e = TypeError ''this._onDisposed is not a function''
             \<and> rcm_cursorWidgets s2 (JSString ''jDoe'') = Some 0
             \<and> map cw_disposed (rcm_heap s2) = [True]
             \<and> (case removeCursor (JSString ''jDoe'') s2 of
                  Inl thrown \<Rightarrow> False
                | Inr s3 \<Rightarrow>
                    rcm_cursorWidgets s3 (JSString ''jDoe'') = None
                    \<and> removeCursor (JSString ''jDoe'') s3 = Inl (Error ''No such cursor: '', s3))))"
  by (simp add: addCursor_def new_RemoteCursorWidget_def
      assertString_def removeCursor.simps widget_dispose.simps getCursor_def deref_def
      widget_isDisposed_def widget_release_def Let_def)

text \<open>
  C8. With tooltips enabled \<open>addCursor\<close> without a label is to fail with a
  configuration error. The code does not: on a manager created with
  \<open>tooltips: true\<close>, \<open>addCursor("jDoe", "blue")\<close> returns a handle, and the
  widget is created with an undefined label.
\<close>

theorem addCursor_without_label_creates_cursor:
  "new_RemoteCursorManager
     (Ref \<lparr> mo_editor = True, mo_tooltips = Some True, mo_tooltipDuration = None \<rparr>)
     = Inr \<lparr> rcm_tooltips = True, rcm_tooltipDuration = 1, rcm_nextWidgetId = 0,
             rcm_cursorWidgets = Map.empty, rcm_heap = [] \<rparr>
   \<and> addCursor (JSString ''jDoe'') (JSString ''blue'') JSUndefined
       \<lparr> rcm_tooltips = True, rcm_tooltipDuration = 1, rcm_nextWidgetId = 0,
         rcm_cursorWidgets = Map.empty, rcm_heap = [] \<rparr>
     = Inr (\<lparr> rcm_tooltips = True, rcm_tooltipDuration = 1, rcm_nextWidgetId = 1,
              rcm_cursorWidgets = [JSString ''jDoe'' \<mapsto> 0],
              rcm_heap = [new_RemoteCursorWidget 0 (JSString ''blue'') JSUndefined (JSBoolean True)
                            (JSNumber 1000) (JSFunction (JSString ''jDoe''))
                            JSUndefined JSUndefined JSUndefined] \<rparr>,
            RemoteCursor 0)"
  by (simp add: new_RemoteCursorManager_def addCursor_def assertString_def Let_def)

text \<open>The guard tests the type of a string literal, so the error is never the outcome.\<close>

lemma addCursor_never_rejects_label:
  "addCursor ident color label s \<noteq> Inl (Error ''label is required when tooltips are enabled.'')"
  by (simp add: addCursor_def assertString_def Let_def)

text \<open>
  C9, as stated, fails: a selection is added, given a range and disposed, which
  removes its decoration; \<open>show\<close> on the disposed selection then returns
  normally and the decoration is rendered again.
\<close>

theorem operations_on_disposed_selection_succeed:
  "(case addSelection (JSString ''jDoe'') (JSString ''blue'') JSUndefined new_RemoteSelectionManager of
      Inl e \<Rightarrow> False
    | Inr (s1, selection) \<Rightarrow>
        (case on_selection selection
                (selection_setPositions \<lparr> lineNumber = 1, column = 5 \<rparr> \<lparr> lineNumber = 1, column = 9 \<rparr>) s1 of
           Inl e \<Rightarrow> False
         | Inr s2 \<Rightarrow>
             (case selection_dispose selection s2 of
                Inl e \<Rightarrow> False
              | Inr s3 \<Rightarrow>
                  map rs_disposed (rsm_heap s3) = [True]
                  \<and> map rs_decorations (rsm_heap s3) = [[]]
                  \<and> (case on_selection selection selection_show s3 of
                        Inl e \<Rightarrow> False
                      | Inr s4 \<Rightarrow>
                          map rs_disposed (rsm_heap s4) = [True]
                          \<and> map rs_decorations (rsm_heap s4)
                              = [[\<lparr> d_startLineNumber = 1, d_startColumn = 5,
                                    d_endLineNumber = 1, d_endColumn = 9,
                                    d_hoverMessage = JSNull \<rparr>]]))))"
  by (simp add: addSelection_def new_RemoteSelectionManager_def new_RemoteSelection_def
      assertString_def removeSelection.simps selection_dispose.simps getSelection_def deref_def
      selection_isDisposed_def selection_release_def selection_hide_def on_selection_def
      selection_setPositions_def swapIfNeeded_def selection_render_def selection_show_def Let_def)

text \<open>
  Likewise for a cursor: \<open>dispose\<close> on the handle that \<open>addCursor\<close>
  returned sets the flag and then throws, and \<open>hide\<close> afterwards returns
  normally and sets the display of the disposed widget.
\<close>

lemma operations_on_disposed_cursor_succeed:
  "(case addCursor (JSString ''jDoe'') (JSString ''blue'') (JSString ''John'')
           \<lparr> rcm_tooltips = True, rcm_tooltipDuration = 1, rcm_nextWidgetId = 0,
             rcm_cursorWidgets = Map.empty, rcm_heap = [] \<rparr> of
      Inl e \<Rightarrow> False
    | Inr (s1, c) \<Rightarrow>
        (case cursor_hide c (state_after (cursor_dispose c s1)) of
           Inl e \<Rightarrow> False
         | Inr s3 \<Rightarrow>
             map cw_disposed (rcm_heap s3) = [True]
             \<and> map cw_display (rcm_heap s3) = [''none'']))"
  by (simp add: addCursor_def new_RemoteCursorWidget_def state_after_def
      assertString_def removeCursor.simps widget_dispose.simps getCursor_def deref_def
      widget_isDisposed_def widget_release_def Let_def on_widget_def widget_hide_def)

text \<open>
  C9, amended. \<open>dispose()\<close> sets the flag of the marker: a cursor has it in
  the state a call of \<open>dispose()\<close> leaves behind, whether the call returned
  or threw, and a selection has it when the call has returned. On a marker
  whose flag is set, a further \<open>dispose()\<close> changes nothing and raises
  nothing. The other operations do not look at the flag: on the disposed
  cursor \<open>hide\<close>, \<open>show\<close>, \<open>setPosition\<close> and \<open>setOffset\<close> return
  normally with the effect they have on any cursor, and on the disposed
  selection so do \<open>hide\<close>, \<open>setPositions\<close> and \<open>setOffsets\<close>, and
  \<open>show\<close> when the selection has a stored range (it renders the decoration
  again).
\<close>

theorem disposed_marker_operations:
  "(a < length (rcm_heap s) \<longrightarrow>
      a < length (rcm_heap (state_after (cursor_dispose (RemoteCursor a) s)))
      \<and> cw_disposed (rcm_heap (state_after (cursor_dispose (RemoteCursor a) s)) ! a))
   \<and> (a < length (rcm_heap s1) \<and> cw_disposed (rcm_heap s1 ! a) \<longrightarrow>
      cursor_dispose (RemoteCursor a) s1 = Inr s1
      \<and> cursor_hide (RemoteCursor a) s1
          = Inr (s1\<lparr> rcm_heap := (rcm_heap s1)[a := widget_hide (rcm_heap s1 ! a)] \<rparr>)
      \<and> cursor_show (RemoteCursor a) s1
          = Inr (s1\<lparr> rcm_heap := (rcm_heap s1)[a := widget_show (rcm_heap s1 ! a)] \<rparr>)
      \<and> cursor_setPosition h buf (RemoteCursor a) (Ref pos) s1
          = Inr (s1\<lparr> rcm_heap := (rcm_heap s1)[a := widget_updatePosition h buf pos (rcm_heap s1 ! a)] \<rparr>)
      \<and> cursor_setOffset h buf (RemoteCursor a) (JSNumber n) s1
          = Inr (s1\<lparr> rcm_heap :=
                      (rcm_heap s1)[a := widget_updatePosition h buf (getPositionAt h buf n) (rcm_heap s1 ! a)] \<rparr>))
   \<and> (selection_dispose b t = Inr t1 \<longrightarrow>
      b < length (rsm_heap t1) \<and> rs_disposed (rsm_heap t1 ! b))
   \<and> (b < length (rsm_heap t1) \<and> rs_disposed (rsm_heap t1 ! b) \<longrightarrow>
      selection_dispose b t1 = Inr t1
      \<and> on_selection b (\<lambda>sel. Inr (selection_hide sel)) t1
          = Inr (t1\<lparr> rsm_heap := (rsm_heap t1)[b := selection_hide (rsm_heap t1 ! b)] \<rparr>)
      \<and> (\<exists>sel'. selection_setPositions p q (rsm_heap t1 ! b) = Inr sel'
            \<and> on_selection b (selection_setPositions p q) t1
                = Inr (t1\<lparr> rsm_heap := (rsm_heap t1)[b := sel'] \<rparr>))
      \<and> (\<exists>sel'. selection_setOffsets h buf x y (rsm_heap t1 ! b) = Inr sel'
            \<and> on_selection b (selection_setOffsets h buf x y) t1
                = Inr (t1\<lparr> rsm_heap := (rsm_heap t1)[b := sel'] \<rparr>))
      \<and> (\<forall>u v. rs_startPosition (rsm_heap t1 ! b) = Ref u \<and> rs_endPosition (rsm_heap t1 ! b) = Ref v \<longrightarrow>
            (\<exists>sel'. selection_show (rsm_heap t1 ! b) = Inr sel' \<and> rs_decorations sel' \<noteq> []
               \<and> on_selection b selection_show t1
                   = Inr (t1\<lparr> rsm_heap := (rsm_heap t1)[b := sel'] \<rparr>))))"
proof (intro conjI impI)
  assume "a < length (rcm_heap s)"
  from widget_dispose_sets_flag [OF this]
  show "a < length (rcm_heap (state_after (cursor_dispose (RemoteCursor a) s)))"
    and "cw_disposed (rcm_heap (state_after (cursor_dispose (RemoteCursor a) s)) ! a)"
    by simp_all
next
  assume "a < length (rcm_heap s1) \<and> cw_disposed (rcm_heap s1 ! a)"
  then have a: "a < length (rcm_heap s1)" and d: "cw_disposed (rcm_heap s1 ! a)" by simp_all
  from a d show "cursor_dispose (RemoteCursor a) s1 = Inr s1"
    by (simp add: widget_dispose.simps deref_def)
  from a show "cursor_hide (RemoteCursor a) s1
          = Inr (s1\<lparr> rcm_heap := (rcm_heap s1)[a := widget_hide (rcm_heap s1 ! a)] \<rparr>)"
    by (simp add: on_widget_at)
  from a show "cursor_show (RemoteCursor a) s1
          = Inr (s1\<lparr> rcm_heap := (rcm_heap s1)[a := widget_show (rcm_heap s1 ! a)] \<rparr>)"
    by (simp add: on_widget_at)
  from a show "cursor_setPosition h buf (RemoteCursor a) (Ref pos) s1
          = Inr (s1\<lparr> rcm_heap := (rcm_heap s1)[a := widget_updatePosition h buf pos (rcm_heap s1 ! a)] \<rparr>)"
    by (simp add: on_widget_at widget_setPosition_def assertPosition_def assertDefined_def)
  from a show "cursor_setOffset h buf (RemoteCursor a) (JSNumber n) s1
          = Inr (s1\<lparr> rcm_heap :=
                      (rcm_heap s1)[a := widget_updatePosition h buf (getPositionAt h buf n) (rcm_heap s1 ! a)] \<rparr>)"
    by (simp add: on_widget_at widget_setOffset_def widget_setPosition_def assertNumber_def
        assertPosition_def assertDefined_def)
next
  assume "selection_dispose b t = Inr t1"
  from selection_dispose_sets_flag [OF this]
  show "b < length (rsm_heap t1)" and "rs_disposed (rsm_heap t1 ! b)" by simp_all
next
  assume "b < length (rsm_heap t1) \<and> rs_disposed (rsm_heap t1 ! b)"
  then have b: "b < length (rsm_heap t1)" and d: "rs_disposed (rsm_heap t1 ! b)" by simp_all
  from b d show "selection_dispose b t1 = Inr t1"
    by (simp add: selection_dispose.simps deref_def)
  from b show "on_selection b (\<lambda>sel. Inr (selection_hide sel)) t1
          = Inr (t1\<lparr> rsm_heap := (rsm_heap t1)[b := selection_hide (rsm_heap t1 ! b)] \<rparr>)"
    by (simp add: on_selection_at)
  from selection_setPositions_ok [of p q "rsm_heap t1 ! b"] b
  show "\<exists>sel'. selection_setPositions p q (rsm_heap t1 ! b) = Inr sel'
            \<and> on_selection b (selection_setPositions p q) t1
                = Inr (t1\<lparr> rsm_heap := (rsm_heap t1)[b := sel'] \<rparr>)"
    by (auto simp: on_selection_at)
  from selection_setPositions_ok [of "getPositionAt h buf x" "getPositionAt h buf y" "rsm_heap t1 ! b"] b
  show "\<exists>sel'. selection_setOffsets h buf x y (rsm_heap t1 ! b) = Inr sel'
            \<and> on_selection b (selection_setOffsets h buf x y) t1
                = Inr (t1\<lparr> rsm_heap := (rsm_heap t1)[b := sel'] \<rparr>)"
    by (auto simp: on_selection_at selection_setOffsets_def Let_def)
  show "\<forall>u v. rs_startPosition (rsm_heap t1 ! b) = Ref u \<and> rs_endPosition (rsm_heap t1 ! b) = Ref v \<longrightarrow>
            (\<exists>sel'. selection_show (rsm_heap t1 ! b) = Inr sel' \<and> rs_decorations sel' \<noteq> []
               \<and> on_selection b selection_show t1
                   = Inr (t1\<lparr> rsm_heap := (rsm_heap t1)[b := sel'] \<rparr>))"
  proof (intro allI impI)
    fix u v
    assume "rs_startPosition (rsm_heap t1 ! b) = Ref u \<and> rs_endPosition (rsm_heap t1 ! b) = Ref v"
    with selection_show_positioned [of "rsm_heap t1 ! b" u v] b
    show "\<exists>sel'. selection_show (rsm_heap t1 ! b) = Inr sel' \<and> rs_decorations sel' \<noteq> []
               \<and> on_selection b selection_show t1
                   = Inr (t1\<lparr> rsm_heap := (rsm_heap t1)[b := sel'] \<rparr>)"
      by (auto simp: on_selection_at)
  qed
qed

text \<open>
  The cursor that \<open>addCursor(jDoe, blue, John)\<close> created, and a selection
  with a stored range, each disposed once. The cursor's first \<open>dispose\<close>
  throws after setting the flag.
\<close>

theorem disposed_marker_operations_witness:
  "cursor_dispose (RemoteCursor 0)
      \<lparr> rcm_tooltips = True, rcm_tooltipDuration = 1, rcm_nextWidgetId = 1,
         rcm_cursorWidgets = [JSString ''jDoe'' \<mapsto> 0],
         rcm_heap = [(new_RemoteCursorWidget 0 (JSString ''blue'') (JSString ''John'') (JSBoolean True) (JSNumber 1000)
              (JSFunction (JSString ''jDoe'')) JSUndefined JSUndefined JSUndefined)] \<rparr>
    = Inl (TypeError ''this._onDisposed is not a function'',
      \<lparr> rcm_tooltips = True, rcm_tooltipDuration = 1, rcm_nextWidgetId = 1,
         rcm_cursorWidgets = [JSString ''jDoe'' \<mapsto> 0],
         rcm_heap = [widget_release
            (new_RemoteCursorWidget 0 (JSString ''blue'') (JSString ''John'') (JSBoolean True) (JSNumber 1000)
              (JSFunction (JSString ''jDoe'')) JSUndefined JSUndefined JSUndefined)] \<rparr>)
   \<and> cw_disposed (rcm_heap
      \<lparr> rcm_tooltips = True, rcm_tooltipDuration = 1, rcm_nextWidgetId = 1,
         rcm_cursorWidgets = [JSString ''jDoe'' \<mapsto> 0],
         rcm_heap = [widget_release
            (new_RemoteCursorWidget 0 (JSString ''blue'') (JSString ''John'') (JSBoolean True) (JSNumber 1000)
              (JSFunction (JSString ''jDoe'')) JSUndefined JSUndefined JSUndefined)] \<rparr> ! 0)
   \<and> cursor_dispose (RemoteCursor 0)
      \<lparr> rcm_tooltips = True, rcm_tooltipDuration = 1, rcm_nextWidgetId = 1,
         rcm_cursorWidgets = [JSString ''jDoe'' \<mapsto> 0],
         rcm_heap = [widget_release
            (new_RemoteCursorWidget 0 (JSString ''blue'') (JSString ''John'') (JSBoolean True) (JSNumber 1000)
              (JSFunction (JSString ''jDoe'')) JSUndefined JSUndefined JSUndefined)] \<rparr>
    = Inr \<lparr> rcm_tooltips = True, rcm_tooltipDuration = 1, rcm_nextWidgetId = 1,
         rcm_cursorWidgets = [JSString ''jDoe'' \<mapsto> 0],
         rcm_heap = [widget_release
            (new_RemoteCursorWidget 0 (JSString ''blue'') (JSString ''John'') (JSBoolean True) (JSNumber 1000)
              (JSFunction (JSString ''jDoe'')) JSUndefined JSUndefined JSUndefined)] \<rparr>
   \<and> (\<exists>s3. cursor_hide (RemoteCursor 0)
      \<lparr> rcm_tooltips = True, rcm_tooltipDuration = 1, rcm_nextWidgetId = 1,
         rcm_cursorWidgets = [JSString ''jDoe'' \<mapsto> 0],
         rcm_heap = [widget_release
            (new_RemoteCursorWidget 0 (JSString ''blue'') (JSString ''John'') (JSBoolean True) (JSNumber 1000)
              (JSFunction (JSString ''jDoe'')) JSUndefined JSUndefined JSUndefined)] \<rparr> = Inr s3 \<and> map cw_display (rcm_heap s3) = [''none''])
   \<and> selection_dispose 0
      \<lparr> rsm_nextClassId = 1, rsm_remoteSelections = [JSString ''jDoe'' \<mapsto> 0],
         rsm_heap = [\<lparr> rs_id = JSString ''jDoe'', rs_classId = 0, rs_color = JSString ''blue'',
              rs_label = JSUndefined, rs_styleAttached = True,
              rs_startPosition = Ref \<lparr> lineNumber = 1, column = 5 \<rparr>,
              rs_endPosition = Ref \<lparr> lineNumber = 1, column = 9 \<rparr>,
              rs_decorations = [], rs_disposed = False,
              rs_onDisposed = JSString ''jDoe'' \<rparr>] \<rparr>
    = Inr \<lparr> rsm_nextClassId = 1, rsm_remoteSelections = [JSString ''jDoe'' \<mapsto> 0],
         rsm_heap = [selection_release
            \<lparr> rs_id = JSString ''jDoe'', rs_classId = 0, rs_color = JSString ''blue'',
              rs_label = JSUndefined, rs_styleAttached = True,
              rs_startPosition = Ref \<lparr> lineNumber = 1, column = 5 \<rparr>,
              rs_endPosition = Ref \<lparr> lineNumber = 1, column = 9 \<rparr>,
              rs_decorations = [], rs_disposed = False,
              rs_onDisposed = JSString ''jDoe'' \<rparr>] \<rparr>
   \<and> rs_disposed (rsm_heap
      \<lparr> rsm_nextClassId = 1, rsm_remoteSelections = [JSString ''jDoe'' \<mapsto> 0],
         rsm_heap = [selection_release
            \<lparr> rs_id = JSString ''jDoe'', rs_classId = 0, rs_color = JSString ''blue'',
              rs_label = JSUndefined, rs_styleAttached = True,
              rs_startPosition = Ref \<lparr> lineNumber = 1, column = 5 \<rparr>,
              rs_endPosition = Ref \<lparr> lineNumber = 1, column = 9 \<rparr>,
              rs_decorations = [], rs_disposed = False,
              rs_onDisposed = JSString ''jDoe'' \<rparr>] \<rparr> ! 0)
   \<and> selection_dispose 0
      \<lparr> rsm_nextClassId = 1, rsm_remoteSelections = [JSString ''jDoe'' \<mapsto> 0],
         rsm_heap = [selection_release
            \<lparr> rs_id = JSString ''jDoe'', rs_classId = 0, rs_color = JSString ''blue'',
              rs_label = JSUndefined, rs_styleAttached = True,
              rs_startPosition = Ref \<lparr> lineNumber = 1, column = 5 \<rparr>,
              rs_endPosition = Ref \<lparr> lineNumber = 1, column = 9 \<rparr>,
              rs_decorations = [], rs_disposed = False,
              rs_onDisposed = JSString ''jDoe'' \<rparr>] \<rparr>
    = Inr \<lparr> rsm_nextClassId = 1, rsm_remoteSelections = [JSString ''jDoe'' \<mapsto> 0],
         rsm_heap = [selection_release
            \<lparr> rs_id = JSString ''jDoe'', rs_classId = 0, rs_color = JSString ''blue'',
              rs_label = JSUndefined, rs_styleAttached = True,
              rs_startPosition = Ref \<lparr> lineNumber = 1, column = 5 \<rparr>,
              rs_endPosition = Ref \<lparr> lineNumber = 1, column = 9 \<rparr>,
              rs_decorations = [], rs_disposed = False,
              rs_onDisposed = JSString ''jDoe'' \<rparr>] \<rparr>
   \<and> (\<exists>sel'. selection_show
            (selection_release
               \<lparr> rs_id = JSString ''jDoe'', rs_classId = 0, rs_color = JSString ''blue'',
              rs_label = JSUndefined, rs_styleAttached = True,
              rs_startPosition = Ref \<lparr> lineNumber = 1, column = 5 \<rparr>,
              rs_endPosition = Ref \<lparr> lineNumber = 1, column = 9 \<rparr>,
              rs_decorations = [], rs_disposed = False,
              rs_onDisposed = JSString ''jDoe'' \<rparr>) = Inr sel' \<and> rs_decorations sel' \<noteq> [])"
proof -
  let ?S1 = "\<lparr> rcm_tooltips = True, rcm_tooltipDuration = 1, rcm_nextWidgetId = 1,
         rcm_cursorWidgets = [JSString ''jDoe'' \<mapsto> 0],
         rcm_heap = [(new_RemoteCursorWidget 0 (JSString ''blue'') (JSString ''John'') (JSBoolean True) (JSNumber 1000)
              (JSFunction (JSString ''jDoe'')) JSUndefined JSUndefined JSUndefined)] \<rparr>"
  let ?S2 = "\<lparr> rcm_tooltips = True, rcm_tooltipDuration = 1, rcm_nextWidgetId = 1,
         rcm_cursorWidgets = [JSString ''jDoe'' \<mapsto> 0],
         rcm_heap = [widget_release
            (new_RemoteCursorWidget 0 (JSString ''blue'') (JSString ''John'') (JSBoolean True) (JSNumber 1000)
              (JSFunction (JSString ''jDoe'')) JSUndefined JSUndefined JSUndefined)] \<rparr>"
  let ?T1 = "\<lparr> rsm_nextClassId = 1, rsm_remoteSelections = [JSString ''jDoe'' \<mapsto> 0],
         rsm_heap = [\<lparr> rs_id = JSString ''jDoe'', rs_classId = 0, rs_color = JSString ''blue'',
              rs_label = JSUndefined, rs_styleAttached = True,
              rs_startPosition = Ref \<lparr> lineNumber = 1, column = 5 \<rparr>,
              rs_endPosition = Ref \<lparr> lineNumber = 1, column = 9 \<rparr>,
              rs_decorations = [], rs_disposed = False,
              rs_onDisposed = JSString ''jDoe'' \<rparr>] \<rparr>"
  let ?T2 = "\<lparr> rsm_nextClassId = 1, rsm_remoteSelections = [JSString ''jDoe'' \<mapsto> 0],
         rsm_heap = [selection_release
            \<lparr> rs_id = JSString ''jDoe'', rs_classId = 0, rs_color = JSString ''blue'',
              rs_label = JSUndefined, rs_styleAttached = True,
              rs_startPosition = Ref \<lparr> lineNumber = 1, column = 5 \<rparr>,
              rs_endPosition = Ref \<lparr> lineNumber = 1, column = 9 \<rparr>,
              rs_decorations = [], rs_disposed = False,
              rs_onDisposed = JSString ''jDoe'' \<rparr>] \<rparr>"
  have c: "cursor_dispose (RemoteCursor 0) ?S1
             = Inl (TypeError ''this._onDisposed is not a function'', ?S2)"
    by (simp add: widget_dispose.simps deref_def new_RemoteCursorWidget_def widget_release_def)
  have after: "state_after (cursor_dispose (RemoteCursor 0) ?S1) = ?S2"
    unfolding c by (simp add: state_after_def)
  have a1: "0 < length (rcm_heap ?S1)" by simp
  have t: "selection_dispose 0 ?T1 = Inr ?T2"
    by (simp add: selection_dispose.simps removeSelection.simps deref_def getSelection_def
        selection_isDisposed_def selection_release_def selection_hide_def)
  have pos: "rs_startPosition (rsm_heap ?T2 ! 0) = Ref \<lparr> lineNumber = 1, column = 5 \<rparr>
      \<and> rs_endPosition (rsm_heap ?T2 ! 0) = Ref \<lparr> lineNumber = 1, column = 9 \<rparr>"
    by (simp add: selection_release_def selection_hide_def)
  note all = disposed_marker_operations [of 0 ?S1 ?S2 _ _ _ _ 0 ?T1 ?T2]
  note flag = all [THEN conjunct1, THEN mp, OF a1, unfolded after]
  note cur = all [THEN conjunct2, THEN conjunct1, THEN mp, OF flag]
  note sflag = all [THEN conjunct2, THEN conjunct2, THEN conjunct1, THEN mp, OF t]
  note sel = all [THEN conjunct2, THEN conjunct2, THEN conjunct2, THEN mp, OF sflag]
  note shown = sel [THEN conjunct2, THEN conjunct2, THEN conjunct2, THEN conjunct2,
      THEN spec, THEN spec, THEN mp, OF pos]
  from shown obtain sel' where
    "selection_show (rsm_heap ?T2 ! 0) = Inr sel' \<and> rs_decorations sel' \<noteq> []"
    by blast
  then have "\<exists>sel'. selection_show (selection_release
               \<lparr> rs_id = JSString ''jDoe'', rs_classId = 0, rs_color = JSString ''blue'',
              rs_label = JSUndefined, rs_styleAttached = True,
              rs_startPosition = Ref \<lparr> lineNumber = 1, column = 5 \<rparr>,
              rs_endPosition = Ref \<lparr> lineNumber = 1, column = 9 \<rparr>,
              rs_decorations = [], rs_disposed = False,
              rs_onDisposed = JSString ''jDoe'' \<rparr>) = Inr sel' \<and> rs_decorations sel' \<noteq> []"
    by auto
  moreover have "\<exists>s3. cursor_hide (RemoteCursor 0) ?S2 = Inr s3 \<and> map cw_display (rcm_heap s3) = [''none'']"
    using cur [THEN conjunct2, THEN conjunct1] by (simp add: widget_hide_def)
  ultimately show ?thesis
    using c t cur [THEN conjunct1] sel [THEN conjunct1] flag [THEN conjunct2] sflag [THEN conjunct2]
    by simp
qed

text \<open>
  C10. A handle whose cursor has just been created, and not been given a
  position since, has nothing stored in \<open>_position\<close>: \<open>getPosition()\<close>
  fails reading \<open>position\<close> of \<open>undefined\<close>. Calls of \<open>hide\<close> and
  \<open>show\<close> do not change that. After \<open>setPosition\<close> or \<open>setOffset\<close> has
  returned, \<open>getPosition()\<close> returns the position set.
\<close>

theorem getPosition_needs_a_position:
  assumes "addCursor ident color label s = Inr (s1, c)"
  shows "cursor_getPosition c s1
           = Inl (TypeError ''Cannot read properties of undefined (reading position)'')
       \<and> (\<forall>s2. cursor_hide c s1 = Inr s2 \<longrightarrow>
             cursor_getPosition c s2
               = Inl (TypeError ''Cannot read properties of undefined (reading position)''))
       \<and> (\<forall>s2. cursor_show c s1 = Inr s2 \<longrightarrow>
             cursor_getPosition c s2
               = Inl (TypeError ''Cannot read properties of undefined (reading position)''))
       \<and> (\<forall>h buf pos s2. cursor_setPosition h buf c (Ref pos) s1 = Inr s2 \<longrightarrow>
             cursor_getPosition c s2 = Inr pos)
       \<and> (\<forall>h buf n s2. cursor_setOffset h buf c (JSNumber n) s1 = Inr s2 \<longrightarrow>
             cursor_getPosition c s2 = Inr (getPositionAt h buf n))"
proof -
  let ?a = "length (rcm_heap s)"
  let ?w = "new_RemoteCursorWidget (rcm_nextWidgetId s) color label (JSBoolean (rcm_tooltips s))
              (JSNumber (rcm_tooltipDuration s * 1000)) (JSFunction ident)
              JSUndefined JSUndefined JSUndefined"
  from addCursor_result [OF assms]
  have c: "c = RemoteCursor ?a" and w: "deref (rcm_heap s1) ?a = Some ?w" by simp_all
  from w have lt: "?a < length (rcm_heap s1)" by (simp add: deref_Some)
  have fresh: "cw_position ?w = Undefined"
    by (simp add: new_RemoteCursorWidget_def)
  show ?thesis
    using w lt fresh
    by (auto simp: c on_widget_def widget_getPosition_def widget_hide_def widget_show_def
        widget_setPosition_def widget_setOffset_def widget_updatePosition_def
        assertPosition_def assertDefined_def assertNumber_def deref_update)
qed

text \<open>A cursor added to a new manager, asked before and after \<open>setPosition\<close>.\<close>

theorem getPosition_needs_a_position_witness:
  "addCursor (JSString ''jDoe'') (JSString ''blue'') (JSString ''John'')
      \<lparr> rcm_tooltips = True, rcm_tooltipDuration = 1, rcm_nextWidgetId = 0,
        rcm_cursorWidgets = Map.empty, rcm_heap = [] \<rparr>
    = Inr (\<lparr> rcm_tooltips = True, rcm_tooltipDuration = 1, rcm_nextWidgetId = 1,
        rcm_cursorWidgets = [JSString ''jDoe'' \<mapsto> 0],
        rcm_heap = [(new_RemoteCursorWidget 0 (JSString ''blue'') (JSString ''John'') (JSBoolean True) (JSNumber 1000)
              (JSFunction (JSString ''jDoe'')) JSUndefined JSUndefined JSUndefined)] \<rparr>, RemoteCursor 0)
   \<and> cursor_getPosition (RemoteCursor 0)
      \<lparr> rcm_tooltips = True, rcm_tooltipDuration = 1, rcm_nextWidgetId = 1,
        rcm_cursorWidgets = [JSString ''jDoe'' \<mapsto> 0],
        rcm_heap = [(new_RemoteCursorWidget 0 (JSString ''blue'') (JSString ''John'') (JSBoolean True) (JSNumber 1000)
              (JSFunction (JSString ''jDoe'')) JSUndefined JSUndefined JSUndefined)] \<rparr>
    = Inl (TypeError ''Cannot read properties of undefined (reading position)'')
   \<and> cursor_setPosition line_host ''hello'' (RemoteCursor 0) (Ref \<lparr> lineNumber = 1, column = 3 \<rparr>)
      \<lparr> rcm_tooltips = True, rcm_tooltipDuration = 1, rcm_nextWidgetId = 1,
        rcm_cursorWidgets = [JSString ''jDoe'' \<mapsto> 0],
        rcm_heap = [(new_RemoteCursorWidget 0 (JSString ''blue'') (JSString ''John'') (JSBoolean True) (JSNumber 1000)
              (JSFunction (JSString ''jDoe'')) JSUndefined JSUndefined JSUndefined)] \<rparr>
    = Inr \<lparr> rcm_tooltips = True, rcm_tooltipDuration = 1, rcm_nextWidgetId = 1,
        rcm_cursorWidgets = [JSString ''jDoe'' \<mapsto> 0],
        rcm_heap = [widget_updatePosition line_host ''hello'' \<lparr> lineNumber = 1, column = 3 \<rparr>
                      (new_RemoteCursorWidget 0 (JSString ''blue'') (JSString ''John'') (JSBoolean True) (JSNumber 1000)
              (JSFunction (JSString ''jDoe'')) JSUndefined JSUndefined JSUndefined)] \<rparr>
   \<and> cursor_getPosition (RemoteCursor 0)
      \<lparr> rcm_tooltips = True, rcm_tooltipDuration = 1, rcm_nextWidgetId = 1,
        rcm_cursorWidgets = [JSString ''jDoe'' \<mapsto> 0],
        rcm_heap = [widget_updatePosition line_host ''hello'' \<lparr> lineNumber = 1, column = 3 \<rparr>
                      (new_RemoteCursorWidget 0 (JSString ''blue'') (JSString ''John'') (JSBoolean True) (JSNumber 1000)
              (JSFunction (JSString ''jDoe'')) JSUndefined JSUndefined JSUndefined)] \<rparr>
    = Inr \<lparr> lineNumber = 1, column = 3 \<rparr>"
proof -
  let ?S0 = "\<lparr> rcm_tooltips = True, rcm_tooltipDuration = 1, rcm_nextWidgetId = 0,
        rcm_cursorWidgets = Map.empty, rcm_heap = [] \<rparr>"
  let ?S1 = "\<lparr> rcm_tooltips = True, rcm_tooltipDuration = 1, rcm_nextWidgetId = 1,
        rcm_cursorWidgets = [JSString ''jDoe'' \<mapsto> 0],
        rcm_heap = [(new_RemoteCursorWidget 0 (JSString ''blue'') (JSString ''John'') (JSBoolean True) (JSNumber 1000)
              (JSFunction (JSString ''jDoe'')) JSUndefined JSUndefined JSUndefined)] \<rparr>"
  let ?S3 = "\<lparr> rcm_tooltips = True, rcm_tooltipDuration = 1, rcm_nextWidgetId = 1,
        rcm_cursorWidgets = [JSString ''jDoe'' \<mapsto> 0],
        rcm_heap = [widget_updatePosition line_host ''hello'' \<lparr> lineNumber = 1, column = 3 \<rparr>
                      (new_RemoteCursorWidget 0 (JSString ''blue'') (JSString ''John'') (JSBoolean True) (JSNumber 1000)
              (JSFunction (JSString ''jDoe'')) JSUndefined JSUndefined JSUndefined)] \<rparr>"
  have add: "addCursor (JSString ''jDoe'') (JSString ''blue'') (JSString ''John'') ?S0
      = Inr (?S1, RemoteCursor 0)"
    by (simp add: addCursor_def assertString_def Let_def)
  have setp: "cursor_setPosition line_host ''hello'' (RemoteCursor 0)
      (Ref \<lparr> lineNumber = 1, column = 3 \<rparr>) ?S1 = Inr ?S3"
    by (simp add: on_widget_def deref_def widget_setPosition_def assertPosition_def assertDefined_def)
  note all = getPosition_needs_a_position [OF add]
  note unset = all [THEN conjunct1]
  note after = all [THEN conjunct2, THEN conjunct2, THEN conjunct2, THEN conjunct1,
      THEN spec, THEN spec, THEN spec, THEN spec, THEN mp, OF setp]
  from add unset setp after show ?thesis by simp
qed

end
